theory Spec2Isabelle
  imports Main "HOL-Library.Word"
begin

section \<open>The CurieBle client: synchronous calls over an asynchronous message channel\<close>

text \<open>
  A shallow embedding of \<^verbatim>\<open>libraries/CurieBle/src/internal/ble_client.c\<close>.
  The file-level variables of the C file form the record \<open>state\<close>; every C function
  becomes a function that takes the state and returns the new one.  Three things live
  outside the C file and are made explicit:
  \<^item> the messaging substrate: every request handed to it is appended to the \<open>trace\<close>,
    and its immediate return code is given by the function \<open>substrate\<close> of the
    environment;
  \<^item> the clock and the interrupt context: a blocking call is given a schedule, a list
    with one entry for each call of \<^verbatim>\<open>get_uptime_32k()\<close>.  An entry holds the
    messages the substrate hands to the dispatcher since the previous clock read and
    the tick count this read returns;
  \<^item> the subscriber callbacks: a callback is stored as a function pointer (an address,
    0 for NULL); what the code behind an address does to the state is given by the
    environment.
  A result \<open>None\<close> means that the call does not return normally: the wait is still
  spinning when the schedule ends, or control is passed through a null function pointer.
\<close>

subsection \<open>Data\<close>

type_synonym ptr = nat

text \<open>
  Modelled from the spec: the status codes of \<^verbatim>\<open>ble_status_t\<close> are declared in a header
  that is not part of the file.  The spec lists Success, GenericError, Timeout,
  WrongState and pass-through remote failure codes.  The C code tests a status for being
  non-zero to detect a failure, so Success is the code 0.
\<close>

datatype ble_status =
    BLE_STATUS_SUCCESS
  | BLE_STATUS_TIMEOUT
  | BLE_STATUS_ERROR
  | BLE_STATUS_WRONG_STATE
  | BLE_STATUS_REMOTE nat

text \<open>
  Modelled from the spec: the payload structures are declared in headers that are not
  part of the file.  The address is a sequence of address bytes; the characteristic
  handle set has a value handle and a CCCD handle.
\<close>

type_synonym ble_addr_t = "8 word list"

record ble_gatts_char_handles =
  value_handle :: "16 word"
  cccd_handle :: "16 word"

datatype gap_to_reason =
    BLE_SVC_GAP_TO_ADV
  | BLE_SVC_GAP_TO_CONN
  | BLE_SVC_GAP_TO_OTHER nat

record ble_gap_event =
  evt_conn_handle :: "16 word"
  evt_timeout_reason :: gap_to_reason

type_synonym ble_gatts_evt_msg = "8 word list"

text \<open>
  An inbound message: the kind tag read by \<^verbatim>\<open>CFW_MESSAGE_ID\<close> together with the fields
  that the handler of that kind reads after its cast.  \<open>MSG_ID_OTHER\<close> stands for every
  identifier that the switch of the dispatcher does not list.
\<close>

datatype cfw_message =
    MSG_ID_CFW_SVC_AVAIL_EVT nat
  | MSG_ID_CFW_OPEN_SERVICE ptr
  | MSG_ID_BLE_GAP_WR_CONF_RSP ble_status
  | MSG_ID_BLE_GAP_RD_BDA_RSP ble_status ble_addr_t
  | MSG_ID_BLE_GAP_SM_CONFIG_RSP ble_status
  | MSG_ID_BLE_GAP_WR_ADV_DATA_RSP ble_status
  | MSG_ID_BLE_GAP_ENABLE_ADV_RSP ble_status
  | MSG_ID_BLE_GAP_DISABLE_ADV_RSP ble_status
  | MSG_ID_BLE_GATTS_ADD_SERVICE_RSP ble_status "16 word"
  | MSG_ID_BLE_GATTS_ADD_CHARACTERISTIC_RSP ble_status ble_gatts_char_handles
  | MSG_ID_BLE_GATTS_ADD_DESCRIPTOR_RSP ble_status "16 word"
  | MSG_ID_BLE_GATTS_SET_ATTRIBUTE_VALUE_RSP ble_status
  | MSG_ID_BLE_GATTS_SEND_NOTIF_RSP ble_status
  | MSG_ID_BLE_GATTS_SEND_IND_RSP ble_status
  | MSG_ID_BLE_GAP_CONNECT_EVT ble_gap_event
  | MSG_ID_BLE_GAP_DISCONNECT_EVT ble_gap_event
  | MSG_ID_BLE_GAP_TO_EVT ble_gap_event
  | MSG_ID_BLE_GAP_RSSI_EVT ble_gap_event
  | MSG_ID_BLE_GATTS_WRITE_EVT ble_gatts_evt_msg
  | MSG_ID_BLE_GAP_DISCONNECT_RSP ble_status
  | MSG_ID_BLE_GAP_SET_RSSI_REPORT_RSP ble_status
  | MSG_ID_OTHER nat

datatype ble_client_gap_event =
    BLE_CLIENT_GAP_EVENT_CONNECTED
  | BLE_CLIENT_GAP_EVENT_DISCONNECTED
  | BLE_CLIENT_GAP_EVENT_ADV_TIMEOUT
  | BLE_CLIENT_GAP_EVENT_CONN_TIMEOUT
  | BLE_CLIENT_GAP_EVENT_RSSI

datatype ble_client_gatts_event =
    BLE_CLIENT_GATTS_EVENT_WRITE

subsection \<open>Requests handed to the messaging substrate\<close>

definition MSEC_TO_UNITS :: "nat \<Rightarrow> nat \<Rightarrow> nat" where
  "MSEC_TO_UNITS TIME RESOLUTION = (TIME * 1000) div RESOLUTION"

definition UNIT_1_25_MS :: nat where
  "UNIT_1_25_MS = 1250"

definition UNIT_10_MS :: nat where
  "UNIT_10_MS = 10000"

definition MIN_CONN_INTERVAL :: "16 word" where
  "MIN_CONN_INTERVAL = of_nat (MSEC_TO_UNITS 80 UNIT_1_25_MS)"

definition MAX_CONN_INTERVAL :: "16 word" where
  "MAX_CONN_INTERVAL = of_nat (MSEC_TO_UNITS 150 UNIT_1_25_MS)"

definition SLAVE_LATENCY :: "16 word" where
  "SLAVE_LATENCY = 0"

definition CONN_SUP_TIMEOUT :: "16 word" where
  "CONN_SUP_TIMEOUT = of_nat (MSEC_TO_UNITS 6000 UNIT_10_MS)"

definition APP_ULTRA_FAST_ADV_INTERVAL :: "16 word" where
  "APP_ULTRA_FAST_ADV_INTERVAL = 32"

definition BLE_GAP_ADV_TYPE_ADV_IND :: "8 word" where
  "BLE_GAP_ADV_TYPE_ADV_IND = 0"

definition BLE_GAP_ADV_FP_ANY :: "8 word" where
  "BLE_GAP_ADV_FP_ANY = 0"

record ble_gap_connection_params =
  interval_min :: "16 word"
  interval_max :: "16 word"
  slave_latency :: "16 word"
  link_sup_to :: "16 word"

record ble_wr_config =
  p_bda :: ptr
  p_name :: ptr
  appearance :: "16 word"
  tx_power :: "8 word"
  peripheral_conn_params :: ble_gap_connection_params
  central_conn_params :: ble_gap_connection_params

record ble_gap_adv_param_t =
  adv_timeout :: "16 word"
  adv_interval_min :: "16 word"
  adv_interval_max :: "16 word"
  adv_type :: "8 word"
  adv_filter_policy :: "8 word"
  adv_p_peer_bda :: ptr

record ble_gatts_ind_params_t =
  val_handle :: "16 word"
  ind_len :: "16 word"
  ind_p_data :: ptr
  ind_offset :: "16 word"

datatype rssi_report_op =
    BLE_GAP_RSSI_ENABLE_REPORT
  | BLE_GAP_RSSI_DISABLE_REPORT

text \<open>
  One constructor for each function of the substrate that the file calls, with the
  arguments of the call (the trailing private-data arguments are always NULL and are
  left out).  The first argument is the client or service handle.  The security
  parameters of \<open>Ble_Gap_Sm_Config\<close> are fixed named constants; only the key size is a
  number.
\<close>

datatype request =
    Cfw_Register_Svc_Available ptr nat
  | Cfw_Open_Service ptr nat
  | Ble_Gap_Set_Enable_Config ptr ble_wr_config
  | Ble_Gap_Sm_Config ptr "8 word"
  | Ble_Gap_Read_Bda ptr
  | Ble_Gap_Wr_Adv_Data ptr ptr "8 word"
  | Ble_Gap_Start_Advertise ptr ble_gap_adv_param_t
  | Ble_Gap_Stop_Advertise ptr
  | Ble_Gatts_Add_Service ptr ptr "8 word"
  | Ble_Gatts_Add_Included_Svc ptr "16 word" "16 word"
  | Ble_Gatts_Add_Characteristic ptr "16 word" ptr
  | Ble_Gatts_Add_Descriptor ptr ptr
  | Ble_Gatts_Set_Attribute_Value ptr "16 word" "16 word" ptr "16 word"
  | Ble_Gatts_Send_Ind ptr "16 word" ble_gatts_ind_params_t
  | Ble_Gatts_Send_Notif ptr "16 word" ble_gatts_ind_params_t
  | Ble_Gap_Disconnect ptr "16 word" "8 word"
  | Ble_Gap_Set_Rssi_Report ptr "16 word" rssi_report_op

text \<open>What the file does to the outside, in the order in which it does it.\<close>

datatype action =
    Cfw_Platform_Nordic_Init
  | Cfw_Init
  | Request request
  | Cfw_Msg_Free cfw_message

subsection \<open>The state of the file\<close>

text \<open>
  The destinations that \<^verbatim>\<open>sync.param\<close> can point to: an address, a 16-bit handle or a
  characteristic handle set.  The memory of the callers maps an address to the object
  stored there; a write through \<^verbatim>\<open>sync.param\<close> replaces the whole object.
\<close>

datatype object =
    Obj_Bda ble_addr_t
  | Obj_U16 "16 word"
  | Obj_Char_Handles ble_gatts_char_handles

record state =
  client_handle :: ptr
  service_handle :: ptr
  conn_handle :: "16 word"
  connected :: bool
  ble_client_gap_event_cb :: ptr
  ble_client_gap_event_param :: ptr
  ble_client_gatts_event_cb :: ptr
  ble_client_gatts_event_param :: ptr
  sync_response :: "32 word"
  sync_status :: ble_status
  sync_param :: ptr
  mem :: "ptr \<Rightarrow> object option"
  trace :: "action list"

text \<open>
  The environment of the file.  \<open>substrate\<close> gives the immediate return code of a
  request from the actions so far and the request (0 means accepted).  \<open>cfw_handle\<close> is
  the handle that \<^verbatim>\<open>cfw_init\<close> returns and \<open>core_service_id\<close> the constant
  \<^verbatim>\<open>BLE_CORE_SERVICE_ID\<close>, both declared outside the file.  \<open>gap_code\<close> and
  \<open>gatts_code\<close> give the behaviour of the subscriber function stored at an address.
\<close>

record env =
  substrate :: "action list \<Rightarrow> request \<Rightarrow> int"
  cfw_handle :: ptr
  core_service_id :: nat
  gap_code :: "ptr \<Rightarrow> ble_client_gap_event \<Rightarrow> ble_gap_event \<Rightarrow> ptr \<Rightarrow> state \<Rightarrow> state"
  gatts_code :: "ptr \<Rightarrow> ble_client_gatts_event \<Rightarrow> ble_gatts_evt_msg \<Rightarrow> ptr \<Rightarrow> state \<Rightarrow> state"

definition submit :: "env \<Rightarrow> request \<Rightarrow> state \<Rightarrow> int \<times> state" where
  "submit e req s = (substrate e (trace s) req, s\<lparr>trace := trace s @ [Request req]\<rparr>)"

definition cfw_msg_free :: "cfw_message \<Rightarrow> state \<Rightarrow> state" where
  "cfw_msg_free msg s = s\<lparr>trace := trace s @ [Cfw_Msg_Free msg]\<rparr>"

text \<open>A call through a function pointer; through NULL it does not return.\<close>

definition call_gap_event_cb ::
  "env \<Rightarrow> ptr \<Rightarrow> ble_client_gap_event \<Rightarrow> ble_gap_event \<Rightarrow> ptr \<Rightarrow> state \<Rightarrow> state option" where
  "call_gap_event_cb e f tag evt param s =
     (if f = 0 then None else Some (gap_code e f tag evt param s))"

definition call_gatts_event_cb ::
  "env \<Rightarrow> ptr \<Rightarrow> ble_client_gatts_event \<Rightarrow> ble_gatts_evt_msg \<Rightarrow> ptr \<Rightarrow> state \<Rightarrow> state option" where
  "call_gatts_event_cb e f tag evt param s =
     (if f = 0 then None else Some (gatts_code e f tag evt param s))"

subsection \<open>The handlers of the dispatcher\<close>

definition handle_msg_id_cfw_svc_avail_evt :: "env \<Rightarrow> nat \<Rightarrow> state \<Rightarrow> state" where
  "handle_msg_id_cfw_svc_avail_evt e service_id s =
     (if service_id = core_service_id e
      then s\<lparr>sync_status := BLE_STATUS_SUCCESS, sync_response := 1\<rparr>
      else s)"

definition handle_msg_id_cfw_open_svc :: "ptr \<Rightarrow> state \<Rightarrow> state" where
  "handle_msg_id_cfw_open_svc rsp_client_handle s =
     s\<lparr>service_handle := rsp_client_handle,
       sync_status := BLE_STATUS_SUCCESS, sync_response := 1\<rparr>"

definition handle_msg_id_ble_gap_wr_conf_rsp :: "ble_status \<Rightarrow> state \<Rightarrow> state" where
  "handle_msg_id_ble_gap_wr_conf_rsp rsp_status s =
     s\<lparr>sync_status := rsp_status, sync_response := 1\<rparr>"

definition handle_msg_id_ble_gap_rd_bda_rsp :: "ble_status \<Rightarrow> ble_addr_t \<Rightarrow> state \<Rightarrow> state" where
  "handle_msg_id_ble_gap_rd_bda_rsp rsp_status rsp_bd s =
     (let p_bda = sync_param s;
          s1 = (if p_bda \<noteq> 0 \<and> BLE_STATUS_SUCCESS = rsp_status
                then s\<lparr>mem := (mem s)(p_bda \<mapsto> Obj_Bda rsp_bd)\<rparr> else s)
      in s1\<lparr>sync_status := rsp_status, sync_response := 1\<rparr>)"

definition handle_msg_id_ble_gap_sm_config_rsp :: "ble_status \<Rightarrow> state \<Rightarrow> state" where
  "handle_msg_id_ble_gap_sm_config_rsp rsp_status s =
     s\<lparr>sync_status := rsp_status, sync_response := 1\<rparr>"

definition handle_msg_id_ble_gap_wr_adv_data_rsp :: "ble_status \<Rightarrow> state \<Rightarrow> state" where
  "handle_msg_id_ble_gap_wr_adv_data_rsp rsp_status s =
     s\<lparr>sync_status := rsp_status, sync_response := 1\<rparr>"

definition handle_msg_id_ble_gap_enable_adv_rsp :: "ble_status \<Rightarrow> state \<Rightarrow> state" where
  "handle_msg_id_ble_gap_enable_adv_rsp rsp_status s = s"

definition handle_msg_id_ble_gap_disable_adv_rsp :: "ble_status \<Rightarrow> state \<Rightarrow> state" where
  "handle_msg_id_ble_gap_disable_adv_rsp rsp_status s = s"

definition handle_msg_id_gatts_add_service_rsp :: "ble_status \<Rightarrow> 16 word \<Rightarrow> state \<Rightarrow> state" where
  "handle_msg_id_gatts_add_service_rsp rsp_status rsp_svc_handle s =
     (let p_svc_handle = sync_param s;
          s1 = (if p_svc_handle \<noteq> 0 \<and> BLE_STATUS_SUCCESS = rsp_status
                then s\<lparr>mem := (mem s)(p_svc_handle \<mapsto> Obj_U16 rsp_svc_handle)\<rparr> else s)
      in s1\<lparr>sync_status := rsp_status, sync_response := 1\<rparr>)"

definition handle_msg_id_gatts_add_characteristic_rsp ::
  "ble_status \<Rightarrow> ble_gatts_char_handles \<Rightarrow> state \<Rightarrow> state" where
  "handle_msg_id_gatts_add_characteristic_rsp rsp_status rsp_char_h s =
     (let p_handles = sync_param s;
          s1 = (if p_handles \<noteq> 0 \<and> BLE_STATUS_SUCCESS = rsp_status
                then s\<lparr>mem := (mem s)(p_handles \<mapsto> Obj_Char_Handles rsp_char_h)\<rparr> else s)
      in s1\<lparr>sync_status := rsp_status, sync_response := 1\<rparr>)"

definition handle_msg_id_gatts_add_desc_rsp :: "ble_status \<Rightarrow> 16 word \<Rightarrow> state \<Rightarrow> state" where
  "handle_msg_id_gatts_add_desc_rsp rsp_status rsp_handle s =
     (let p_handle = sync_param s;
          s1 = (if p_handle \<noteq> 0 \<and> BLE_STATUS_SUCCESS = rsp_status
                then s\<lparr>mem := (mem s)(p_handle \<mapsto> Obj_U16 rsp_handle)\<rparr> else s)
      in s1\<lparr>sync_status := rsp_status, sync_response := 1\<rparr>)"

definition handle_msg_id_ble_gatts_set_attribute_value_rsp :: "ble_status \<Rightarrow> state \<Rightarrow> state" where
  "handle_msg_id_ble_gatts_set_attribute_value_rsp rsp_status s =
     s\<lparr>sync_status := rsp_status, sync_response := 1\<rparr>"

definition handle_msg_id_ble_gap_connect_evt_msg :: "env \<Rightarrow> ble_gap_event \<Rightarrow> state \<Rightarrow> state option" where
  "handle_msg_id_ble_gap_connect_evt_msg e evt s =
     (let s1 = s\<lparr>conn_handle := evt_conn_handle evt, connected := True\<rparr>
      in if ble_client_gap_event_cb s1 \<noteq> 0
         then call_gap_event_cb e (ble_client_gap_event_cb s1)
                BLE_CLIENT_GAP_EVENT_CONNECTED evt (ble_client_gap_event_param s1) s1
         else Some s1)"

definition handle_msg_id_ble_gap_disconnect_evt_msg :: "env \<Rightarrow> ble_gap_event \<Rightarrow> state \<Rightarrow> state option" where
  "handle_msg_id_ble_gap_disconnect_evt_msg e evt s =
     (let s1 = s\<lparr>connected := False\<rparr>
      in if ble_client_gap_event_cb s1 \<noteq> 0
         then call_gap_event_cb e (ble_client_gap_event_cb s1)
                BLE_CLIENT_GAP_EVENT_DISCONNECTED evt (ble_client_gap_event_param s1) s1
         else Some s1)"

definition handle_msg_id_ble_gap_timeout_evt_msg :: "env \<Rightarrow> ble_gap_event \<Rightarrow> state \<Rightarrow> state option" where
  "handle_msg_id_ble_gap_timeout_evt_msg e evt s =
     (let s1 = s\<lparr>connected := False\<rparr>
      in if \<not> (ble_client_gap_event_cb s1 \<noteq> 0) then Some s1
         else (case evt_timeout_reason evt of
                 BLE_SVC_GAP_TO_ADV \<Rightarrow>
                   call_gap_event_cb e (ble_client_gap_event_cb s1)
                     BLE_CLIENT_GAP_EVENT_ADV_TIMEOUT evt (ble_client_gap_event_param s1) s1
               | BLE_SVC_GAP_TO_CONN \<Rightarrow>
                   call_gap_event_cb e (ble_client_gap_event_cb s1)
                     BLE_CLIENT_GAP_EVENT_CONN_TIMEOUT evt (ble_client_gap_event_param s1) s1
               | BLE_SVC_GAP_TO_OTHER r \<Rightarrow> Some s1))"

definition handle_msg_id_ble_gap_rssi_evt_msg :: "env \<Rightarrow> ble_gap_event \<Rightarrow> state \<Rightarrow> state option" where
  "handle_msg_id_ble_gap_rssi_evt_msg e evt s =
     (if ble_client_gap_event_cb s \<noteq> 0
      then call_gap_event_cb e (ble_client_gap_event_cb s)
             BLE_CLIENT_GAP_EVENT_RSSI evt (ble_client_gap_event_param s) s
      else Some s)"

definition handle_msg_id_ble_gatts_write_evt_msg :: "env \<Rightarrow> ble_gatts_evt_msg \<Rightarrow> state \<Rightarrow> state option" where
  "handle_msg_id_ble_gatts_write_evt_msg e evt s =
     (if ble_client_gatts_event_cb s \<noteq> 0
      then call_gatts_event_cb e (ble_client_gatts_event_cb s)
             BLE_CLIENT_GATTS_EVENT_WRITE evt (ble_client_gatts_event_param s) s
      else Some s)"

definition handle_msg_id_ble_gatts_send_notif_ind_rsp :: "ble_status \<Rightarrow> state \<Rightarrow> state" where
  "handle_msg_id_ble_gatts_send_notif_ind_rsp rsp_status s =
     s\<lparr>sync_status := rsp_status, sync_response := 1\<rparr>"

definition handle_msg_id_ble_gap_disconnect_rsp :: "ble_status \<Rightarrow> state \<Rightarrow> state" where
  "handle_msg_id_ble_gap_disconnect_rsp rsp_status s =
     s\<lparr>sync_status := rsp_status, sync_response := 1\<rparr>"

definition handle_msg_id_ble_gap_set_rssi_report_rsp :: "ble_status \<Rightarrow> state \<Rightarrow> state" where
  "handle_msg_id_ble_gap_set_rssi_report_rsp rsp_status s =
     s\<lparr>sync_status := rsp_status, sync_response := 1\<rparr>"

subsection \<open>The dispatcher\<close>

text \<open>The switch of \<^verbatim>\<open>ble_core_client_handle_message\<close>, one equation for each case label.\<close>

fun message_switch :: "env \<Rightarrow> cfw_message \<Rightarrow> state \<Rightarrow> state option" where
  "message_switch e (MSG_ID_CFW_SVC_AVAIL_EVT sid) s = Some (handle_msg_id_cfw_svc_avail_evt e sid s)"
| "message_switch e (MSG_ID_CFW_OPEN_SERVICE h) s = Some (handle_msg_id_cfw_open_svc h s)"
| "message_switch e (MSG_ID_BLE_GAP_WR_CONF_RSP st) s = Some (handle_msg_id_ble_gap_wr_conf_rsp st s)"
| "message_switch e (MSG_ID_BLE_GAP_RD_BDA_RSP st bd) s = Some (handle_msg_id_ble_gap_rd_bda_rsp st bd s)"
| "message_switch e (MSG_ID_BLE_GAP_SM_CONFIG_RSP st) s = Some (handle_msg_id_ble_gap_sm_config_rsp st s)"
| "message_switch e (MSG_ID_BLE_GAP_WR_ADV_DATA_RSP st) s = Some (handle_msg_id_ble_gap_wr_adv_data_rsp st s)"
| "message_switch e (MSG_ID_BLE_GAP_ENABLE_ADV_RSP st) s = Some (handle_msg_id_ble_gap_enable_adv_rsp st s)"
| "message_switch e (MSG_ID_BLE_GAP_DISABLE_ADV_RSP st) s = Some (handle_msg_id_ble_gap_disable_adv_rsp st s)"
| "message_switch e (MSG_ID_BLE_GATTS_ADD_SERVICE_RSP st h) s = Some (handle_msg_id_gatts_add_service_rsp st h s)"
| "message_switch e (MSG_ID_BLE_GATTS_ADD_CHARACTERISTIC_RSP st hs) s =
     Some (handle_msg_id_gatts_add_characteristic_rsp st hs s)"
| "message_switch e (MSG_ID_BLE_GATTS_ADD_DESCRIPTOR_RSP st h) s = Some (handle_msg_id_gatts_add_desc_rsp st h s)"
| "message_switch e (MSG_ID_BLE_GATTS_SET_ATTRIBUTE_VALUE_RSP st) s =
     Some (handle_msg_id_ble_gatts_set_attribute_value_rsp st s)"
| "message_switch e (MSG_ID_BLE_GATTS_SEND_NOTIF_RSP st) s = Some (handle_msg_id_ble_gatts_send_notif_ind_rsp st s)"
| "message_switch e (MSG_ID_BLE_GATTS_SEND_IND_RSP st) s = Some (handle_msg_id_ble_gatts_send_notif_ind_rsp st s)"
| "message_switch e (MSG_ID_BLE_GAP_CONNECT_EVT evt) s = handle_msg_id_ble_gap_connect_evt_msg e evt s"
| "message_switch e (MSG_ID_BLE_GAP_DISCONNECT_EVT evt) s = handle_msg_id_ble_gap_disconnect_evt_msg e evt s"
| "message_switch e (MSG_ID_BLE_GAP_TO_EVT evt) s = handle_msg_id_ble_gap_timeout_evt_msg e evt s"
| "message_switch e (MSG_ID_BLE_GAP_RSSI_EVT evt) s = handle_msg_id_ble_gap_rssi_evt_msg e evt s"
| "message_switch e (MSG_ID_BLE_GATTS_WRITE_EVT evt) s = handle_msg_id_ble_gatts_write_evt_msg e evt s"
| "message_switch e (MSG_ID_BLE_GAP_DISCONNECT_RSP st) s = Some (handle_msg_id_ble_gap_disconnect_rsp st s)"
| "message_switch e (MSG_ID_BLE_GAP_SET_RSSI_REPORT_RSP st) s = Some (handle_msg_id_ble_gap_set_rssi_report_rsp st s)"
| "message_switch e (MSG_ID_OTHER k) s = Some s"

definition ble_core_client_handle_message :: "env \<Rightarrow> cfw_message \<Rightarrow> state \<Rightarrow> state option" where
  "ble_core_client_handle_message e msg s =
     (case message_switch e msg s of
        None \<Rightarrow> None
      | Some s1 \<Rightarrow> Some (cfw_msg_free msg s1))"

subsection \<open>The clock and the wait\<close>

text \<open>
  Modelled from the spec: \<^verbatim>\<open>get_uptime_32k\<close> is declared outside the file; it reads the
  32 kHz uptime counter.  The file keeps its values in \<^verbatim>\<open>unsigned\<close> and
  \<^verbatim>\<open>uint32_t\<close> variables, so a tick count is a 32-bit word and the sums wrap around.
\<close>

type_synonym poll = "cfw_message list \<times> 32 word"

fun deliver :: "env \<Rightarrow> cfw_message list \<Rightarrow> state \<Rightarrow> state option" where
  "deliver e [] s = Some s"
| "deliver e (m # ms) s =
     (case ble_core_client_handle_message e m s of
        None \<Rightarrow> None
      | Some s1 \<Rightarrow> deliver e ms s1)"

fun get_uptime_32k :: "env \<Rightarrow> poll \<Rightarrow> state \<Rightarrow> (32 word \<times> state) option" where
  "get_uptime_32k e (msgs, t) s =
     (case deliver e msgs s of
        None \<Rightarrow> None
      | Some s1 \<Rightarrow> Some (t, s1))"

text \<open>The loop of the macro \<^verbatim>\<open>wait_for_condition\<close>; the condition is always \<^verbatim>\<open>sync.response\<close>.\<close>

fun wait_loop :: "env \<Rightarrow> 32 word \<Rightarrow> poll list \<Rightarrow> state \<Rightarrow> (ble_status \<times> poll list \<times> state) option" where
  "wait_loop e timeout [] s =
     (if sync_response s \<noteq> 0 then Some (BLE_STATUS_SUCCESS, [], s) else None)"
| "wait_loop e timeout (p # ps) s =
     (if sync_response s \<noteq> 0 then Some (BLE_STATUS_SUCCESS, p # ps, s)
      else (case get_uptime_32k e p s of
              None \<Rightarrow> None
            | Some (t, s1) \<Rightarrow>
                if t > timeout then Some (BLE_STATUS_TIMEOUT, ps, s1)
                else wait_loop e timeout ps s1))"

definition wait_for_condition :: "env \<Rightarrow> poll list \<Rightarrow> state \<Rightarrow> (ble_status \<times> poll list \<times> state) option" where
  "wait_for_condition e sched s =
     (case sched of
        [] \<Rightarrow> None
      | p # ps \<Rightarrow>
          (case get_uptime_32k e p s of
             None \<Rightarrow> None
           | Some (t0, s1) \<Rightarrow> wait_loop e (t0 + 32768) ps s1))"

text \<open>The tail shared by the blocking calls: wait, then return the harvested status.\<close>

definition wait_and_harvest :: "env \<Rightarrow> poll list \<Rightarrow> state \<Rightarrow> (ble_status \<times> poll list \<times> state) option" where
  "wait_and_harvest e sched s =
     (case wait_for_condition e sched s of
        None \<Rightarrow> None
      | Some (status, sched1, s1) \<Rightarrow>
          if status \<noteq> BLE_STATUS_SUCCESS then Some (status, sched1, s1)
          else Some (sync_status s1, sched1, s1))"

text \<open>The settling delay of \<^verbatim>\<open>ble_client_init\<close>: spin while the clock is below the bound.\<close>

fun delay_loop :: "env \<Rightarrow> 32 word \<Rightarrow> poll list \<Rightarrow> state \<Rightarrow> (poll list \<times> state) option" where
  "delay_loop e delay_until [] s = None"
| "delay_loop e delay_until (p # ps) s =
     (case get_uptime_32k e p s of
        None \<Rightarrow> None
      | Some (t, s1) \<Rightarrow>
          if t < delay_until then delay_loop e delay_until ps s1
          else Some (ps, s1))"

subsection \<open>The public operations\<close>

definition ble_client_init ::
  "env \<Rightarrow> ptr \<Rightarrow> ptr \<Rightarrow> ptr \<Rightarrow> ptr \<Rightarrow> poll list \<Rightarrow> state \<Rightarrow> (ble_status \<times> poll list \<times> state) option" where
  "ble_client_init e gap_event_cb gap_event_param gatts_event_cb gatts_event_param sched s =
     (let s1 = s\<lparr>trace := trace s @ [Cfw_Platform_Nordic_Init]\<rparr>;
          s2 = s1\<lparr>client_handle := cfw_handle e, trace := trace s1 @ [Cfw_Init]\<rparr>;
          s3 = s2\<lparr>sync_response := 0\<rparr>;
          (rc, s4) = submit e (Cfw_Register_Svc_Available (client_handle s3) (core_service_id e)) s3
      in if rc \<noteq> 0 then Some (BLE_STATUS_ERROR, sched, s4)
         else (case wait_for_condition e sched s4 of
                 None \<Rightarrow> None
               | Some (status, sched1, s5) \<Rightarrow>
                   if status \<noteq> BLE_STATUS_SUCCESS then Some (status, sched1, s5)
                   else (case sched1 of
                           [] \<Rightarrow> None
                         | p # ps \<Rightarrow>
                             (case get_uptime_32k e p s5 of
                                None \<Rightarrow> None
                              | Some (t, s6) \<Rightarrow>
                                  (case delay_loop e (t + 32) ps s6 of
                                     None \<Rightarrow> None
                                   | Some (sched2, s7) \<Rightarrow>
                                       (let s8 = s7\<lparr>sync_response := 0\<rparr>;
                                            (rc2, s9) = submit e (Cfw_Open_Service (client_handle s8) (core_service_id e)) s8
                                        in (case wait_for_condition e sched2 s9 of
                                              None \<Rightarrow> None
                                            | Some (status2, sched3, s10) \<Rightarrow>
                                                if status2 \<noteq> BLE_STATUS_SUCCESS then Some (status2, sched3, s10)
                                                else (let s11 = s10\<lparr>ble_client_gap_event_cb := gap_event_cb,
                                                                     ble_client_gap_event_param := gap_event_param,
                                                                     ble_client_gatts_event_cb := gatts_event_cb,
                                                                     ble_client_gatts_event_param := gatts_event_param\<rparr>
                                                      in Some (sync_status s11, sched3, s11)))))))))"

definition ble_client_gap_set_enable_config ::
  "env \<Rightarrow> ptr \<Rightarrow> 16 word \<Rightarrow> 8 word \<Rightarrow> poll list \<Rightarrow> state \<Rightarrow> (ble_status \<times> poll list \<times> state) option" where
  "ble_client_gap_set_enable_config e name appearance' tx_power' sched s =
     (let conn = \<lparr>interval_min = MIN_CONN_INTERVAL, interval_max = MAX_CONN_INTERVAL,
                  slave_latency = SLAVE_LATENCY, link_sup_to = CONN_SUP_TIMEOUT\<rparr>;
          config = \<lparr>p_bda = 0, p_name = name, appearance = appearance', tx_power = tx_power',
                    peripheral_conn_params = conn, central_conn_params = conn\<rparr>;
          s1 = s\<lparr>sync_response := 0\<rparr>;
          (rc, s2) = submit e (Ble_Gap_Set_Enable_Config (service_handle s1) config) s1
      in if rc \<noteq> 0 then Some (BLE_STATUS_ERROR, sched, s2)
         else (case wait_for_condition e sched s2 of
                 None \<Rightarrow> None
               | Some (status, sched1, s3) \<Rightarrow>
                   if status \<noteq> BLE_STATUS_SUCCESS then Some (status, sched1, s3)
                   else if sync_status s3 \<noteq> BLE_STATUS_SUCCESS then Some (sync_status s3, sched1, s3)
                   else (let s4 = s3\<lparr>sync_response := 0\<rparr>;
                             (rc2, s5) = submit e (Ble_Gap_Sm_Config (service_handle s4) 16) s4
                         in if rc2 \<noteq> 0 then Some (BLE_STATUS_ERROR, sched1, s5)
                            else wait_and_harvest e sched1 s5)))"

definition ble_client_gap_get_bda ::
  "env \<Rightarrow> ptr \<Rightarrow> poll list \<Rightarrow> state \<Rightarrow> (ble_status \<times> poll list \<times> state) option" where
  "ble_client_gap_get_bda e p_bda' sched s =
     (let s1 = s\<lparr>sync_response := 0, sync_param := p_bda'\<rparr>;
          (rc, s2) = submit e (Ble_Gap_Read_Bda (service_handle s1)) s1
      in if rc \<noteq> 0 then Some (BLE_STATUS_ERROR, sched, s2)
         else wait_and_harvest e sched s2)"

definition ble_client_gap_wr_adv_data ::
  "env \<Rightarrow> ptr \<Rightarrow> 8 word \<Rightarrow> poll list \<Rightarrow> state \<Rightarrow> (ble_status \<times> poll list \<times> state) option" where
  "ble_client_gap_wr_adv_data e adv_data adv_data_len sched s =
     (let s1 = s\<lparr>sync_response := 0\<rparr>;
          (rc, s2) = submit e (Ble_Gap_Wr_Adv_Data (service_handle s1) adv_data adv_data_len) s1
      in if rc \<noteq> 0 then Some (BLE_STATUS_ERROR, sched, s2)
         else wait_and_harvest e sched s2)"

text \<open>
  The two operations below return the value of the substrate's function as it is; their
  result is that return code and they take no schedule, since they never read the clock.
\<close>

definition ble_client_gap_start_advertise :: "env \<Rightarrow> 16 word \<Rightarrow> state \<Rightarrow> int \<times> state" where
  "ble_client_gap_start_advertise e timeout s =
     (let adv_params = \<lparr>adv_timeout = timeout,
                        adv_interval_min = APP_ULTRA_FAST_ADV_INTERVAL,
                        adv_interval_max = APP_ULTRA_FAST_ADV_INTERVAL,
                        adv_type = BLE_GAP_ADV_TYPE_ADV_IND,
                        adv_filter_policy = BLE_GAP_ADV_FP_ANY,
                        adv_p_peer_bda = 0\<rparr>
      in submit e (Ble_Gap_Start_Advertise (service_handle s) adv_params) s)"

definition ble_client_gap_stop_advertise :: "env \<Rightarrow> state \<Rightarrow> int \<times> state" where
  "ble_client_gap_stop_advertise e s = submit e (Ble_Gap_Stop_Advertise (service_handle s)) s"

definition ble_client_gatts_add_service ::
  "env \<Rightarrow> ptr \<Rightarrow> 8 word \<Rightarrow> ptr \<Rightarrow> poll list \<Rightarrow> state \<Rightarrow> (ble_status \<times> poll list \<times> state) option" where
  "ble_client_gatts_add_service e uuid type svc_handle sched s =
     (let s1 = s\<lparr>sync_response := 0, sync_param := svc_handle\<rparr>;
          (rc, s2) = submit e (Ble_Gatts_Add_Service (service_handle s1) uuid type) s1
      in if rc \<noteq> 0 then Some (BLE_STATUS_ERROR, sched, s2)
         else wait_and_harvest e sched s2)"

definition ble_client_gatts_include_service ::
  "env \<Rightarrow> 16 word \<Rightarrow> 16 word \<Rightarrow> poll list \<Rightarrow> state \<Rightarrow> (ble_status \<times> poll list \<times> state) option" where
  "ble_client_gatts_include_service e primary_svc_handle included_svc_handle sched s =
     (let s1 = s\<lparr>sync_response := 0\<rparr>;
          (rc, s2) = submit e (Ble_Gatts_Add_Included_Svc (service_handle s1)
                                 primary_svc_handle included_svc_handle) s1
      in if rc \<noteq> 0 then Some (BLE_STATUS_ERROR, sched, s2)
         else wait_and_harvest e sched s2)"

definition ble_client_gatts_add_characteristic ::
  "env \<Rightarrow> 16 word \<Rightarrow> ptr \<Rightarrow> ptr \<Rightarrow> poll list \<Rightarrow> state \<Rightarrow> (ble_status \<times> poll list \<times> state) option" where
  "ble_client_gatts_add_characteristic e svc_handle char_data handles sched s =
     (let s1 = s\<lparr>sync_response := 0, sync_param := handles\<rparr>;
          (rc, s2) = submit e (Ble_Gatts_Add_Characteristic (service_handle s1) svc_handle char_data) s1
      in if rc \<noteq> 0 then Some (BLE_STATUS_ERROR, sched, s2)
         else wait_and_harvest e sched s2)"

definition ble_client_gatts_add_descriptor ::
  "env \<Rightarrow> 16 word \<Rightarrow> ptr \<Rightarrow> ptr \<Rightarrow> poll list \<Rightarrow> state \<Rightarrow> (ble_status \<times> poll list \<times> state) option" where
  "ble_client_gatts_add_descriptor e svc_handle desc handle sched s =
     (let s1 = s\<lparr>sync_response := 0, sync_param := handle\<rparr>;
          (rc, s2) = submit e (Ble_Gatts_Add_Descriptor (service_handle s1) desc) s1
      in if rc \<noteq> 0 then Some (BLE_STATUS_ERROR, sched, s2)
         else wait_and_harvest e sched s2)"

definition ble_client_gatts_set_attribute_value ::
  "env \<Rightarrow> 16 word \<Rightarrow> 16 word \<Rightarrow> ptr \<Rightarrow> 16 word \<Rightarrow> poll list \<Rightarrow> state
     \<Rightarrow> (ble_status \<times> poll list \<times> state) option" where
  "ble_client_gatts_set_attribute_value e value_handle' len p_value offset sched s =
     (let s1 = s\<lparr>sync_response := 0\<rparr>;
          (rc, s2) = submit e (Ble_Gatts_Set_Attribute_Value (service_handle s1)
                                 value_handle' len p_value offset) s1
      in if rc \<noteq> 0 then Some (BLE_STATUS_ERROR, sched, s2)
         else wait_and_harvest e sched s2)"

definition ble_client_gatts_send_notif_ind ::
  "env \<Rightarrow> 16 word \<Rightarrow> 16 word \<Rightarrow> ptr \<Rightarrow> 16 word \<Rightarrow> bool \<Rightarrow> poll list \<Rightarrow> state
     \<Rightarrow> (ble_status \<times> poll list \<times> state) option" where
  "ble_client_gatts_send_notif_ind e value_handle' len p_value offset indication sched s =
     (if \<not> connected s then Some (BLE_STATUS_WRONG_STATE, sched, s)
      else (let ind_params = \<lparr>val_handle = value_handle', ind_len = len,
                               ind_p_data = p_value, ind_offset = offset\<rparr>;
                s1 = s\<lparr>sync_response := 0\<rparr>;
                (status, s2) =
                  (if indication
                   then submit e (Ble_Gatts_Send_Ind (service_handle s1) (conn_handle s1) ind_params) s1
                   else submit e (Ble_Gatts_Send_Notif (service_handle s1) (conn_handle s1) ind_params) s1)
            in if status \<noteq> 0 then Some (BLE_STATUS_ERROR, sched, s2)
               else wait_and_harvest e sched s2))"

definition ble_client_gap_disconnect ::
  "env \<Rightarrow> 8 word \<Rightarrow> poll list \<Rightarrow> state \<Rightarrow> (ble_status \<times> poll list \<times> state) option" where
  "ble_client_gap_disconnect e reason sched s =
     (if \<not> connected s then Some (BLE_STATUS_WRONG_STATE, sched, s)
      else (let s1 = s\<lparr>sync_response := 0\<rparr>;
                (rc, s2) = submit e (Ble_Gap_Disconnect (service_handle s1) (conn_handle s1) reason) s1
            in if rc \<noteq> 0 then Some (BLE_STATUS_ERROR, sched, s2)
               else wait_and_harvest e sched s2))"

definition ble_client_gap_set_rssi_report ::
  "env \<Rightarrow> bool \<Rightarrow> poll list \<Rightarrow> state \<Rightarrow> (ble_status \<times> poll list \<times> state) option" where
  "ble_client_gap_set_rssi_report e enable sched s =
     (if \<not> connected s then Some (BLE_STATUS_WRONG_STATE, sched, s)
      else (let s1 = s\<lparr>sync_response := 0\<rparr>;
                (rc, s2) = submit e (Ble_Gap_Set_Rssi_Report (service_handle s1) (conn_handle s1)
                                       (if enable then BLE_GAP_RSSI_ENABLE_REPORT
                                        else BLE_GAP_RSSI_DISABLE_REPORT)) s1
            in if rc \<noteq> 0 then Some (BLE_STATUS_ERROR, sched, s2)
               else wait_and_harvest e sched s2))"

subsection \<open>Schedules\<close>

text \<open>
  Notions used to state the properties.  A message is inert when the dispatcher does
  nothing with it but release it, whatever the subscribers are: an availability event of
  another service, the response to starting or stopping advertising, and a message of
  an unlisted kind.  A list of polls is quiet up to a deadline when only inert messages
  arrive and no clock read is beyond the deadline.  \<open>before_deadline e qs t\<close> says
  that after the polls \<open>qs\<close> of a wait, a clock read \<open>t\<close> is still within the
  deadline that the wait has computed from its first clock read.
\<close>

fun inert :: "env \<Rightarrow> cfw_message \<Rightarrow> bool" where
  "inert e (MSG_ID_CFW_SVC_AVAIL_EVT sid) = (sid \<noteq> core_service_id e)"
| "inert e (MSG_ID_BLE_GAP_ENABLE_ADV_RSP st) = True"
| "inert e (MSG_ID_BLE_GAP_DISABLE_ADV_RSP st) = True"
| "inert e (MSG_ID_OTHER k) = True"
| "inert e m = False"

definition frees :: "poll list \<Rightarrow> action list" where
  "frees ps = map Cfw_Msg_Free (concat (map fst ps))"

definition quiet :: "env \<Rightarrow> 32 word \<Rightarrow> poll list \<Rightarrow> bool" where
  "quiet e timeout ps = list_all (\<lambda>p. list_all (inert e) (fst p) \<and> snd p \<le> timeout) ps"

definition before_deadline :: "env \<Rightarrow> poll list \<Rightarrow> 32 word \<Rightarrow> bool" where
  "before_deadline e qs t =
     (case qs of
        [] \<Rightarrow> True
      | p # ps \<Rightarrow> list_all (inert e) (fst p) \<and> quiet e (snd p + 32768) ps \<and> t \<le> snd p + 32768)"

text \<open>
  \<open>submitted\<close> lists the requests of a trace and \<open>releases\<close> counts how often a
  message has been released.  The two predicates below restrict the subscriber code of
  an environment: it releases no message itself, and it leaves the session variables of
  the file (which are static in the C file) as they are.
\<close>

fun submitted :: "action list \<Rightarrow> request list" where
  "submitted [] = []"
| "submitted (Request r # as) = r # submitted as"
| "submitted (a # as) = submitted as"

definition releases :: "cfw_message \<Rightarrow> action list \<Rightarrow> nat" where
  "releases m tr = count_list tr (Cfw_Msg_Free m)"

definition subscribers_release_nothing :: "env \<Rightarrow> bool" where
  "subscribers_release_nothing e =
     ((\<forall>f tag evt p x m. releases m (trace (gap_code e f tag evt p x)) = releases m (trace x)) \<and>
      (\<forall>f tag evt p x m. releases m (trace (gatts_code e f tag evt p x)) = releases m (trace x)))"

definition keeps_session :: "env \<Rightarrow> bool" where
  "keeps_session e =
     (\<forall>f tag evt p x. connected (gap_code e f tag evt p x) = connected x \<and>
                      conn_handle (gap_code e f tag evt p x) = conn_handle x \<and>
                      service_handle (gap_code e f tag evt p x) = service_handle x)"

text \<open>
  A message completes the pending-request slot when its handler sets \<^verbatim>\<open>sync.response\<close>:
  the availability event of the service and every response that is waited for.  The
  other kinds (an availability event of another service, the two advertising responses,
  the five events and the unlisted kinds) do not.  A list of polls is still up to a
  deadline when no completing message arrives and no clock read is beyond the deadline.
  \<open>open_requests\<close> lists the open-service requests of a trace.  \<open>same_for_init\<close>
  compares what initialisation is about: the completion flag, the service handle, the
  four subscriber fields and the open-service requests; \<open>subscribers_keep_out\<close> says
  that the subscriber code of an environment leaves these as they are.
\<close>

fun completing :: "env \<Rightarrow> cfw_message \<Rightarrow> bool" where
  "completing e (MSG_ID_CFW_SVC_AVAIL_EVT sid) = (sid = core_service_id e)"
| "completing e (MSG_ID_BLE_GAP_ENABLE_ADV_RSP st) = False"
| "completing e (MSG_ID_BLE_GAP_DISABLE_ADV_RSP st) = False"
| "completing e (MSG_ID_BLE_GAP_CONNECT_EVT evt) = False"
| "completing e (MSG_ID_BLE_GAP_DISCONNECT_EVT evt) = False"
| "completing e (MSG_ID_BLE_GAP_TO_EVT evt) = False"
| "completing e (MSG_ID_BLE_GAP_RSSI_EVT evt) = False"
| "completing e (MSG_ID_BLE_GATTS_WRITE_EVT evt) = False"
| "completing e (MSG_ID_OTHER k) = False"
| "completing e m = True"

fun is_open_service :: "request \<Rightarrow> bool" where
  "is_open_service (Cfw_Open_Service h i) = True"
| "is_open_service r = False"

definition open_requests :: "action list \<Rightarrow> request list" where
  "open_requests tr = filter is_open_service (submitted tr)"

definition same_for_init :: "state \<Rightarrow> state \<Rightarrow> bool" where
  "same_for_init s' s =
     (sync_response s' = sync_response s \<and>
      service_handle s' = service_handle s \<and>
      ble_client_gap_event_cb s' = ble_client_gap_event_cb s \<and>
      ble_client_gap_event_param s' = ble_client_gap_event_param s \<and>
      ble_client_gatts_event_cb s' = ble_client_gatts_event_cb s \<and>
      ble_client_gatts_event_param s' = ble_client_gatts_event_param s \<and>
      open_requests (trace s') = open_requests (trace s))"

definition subscribers_keep_out :: "env \<Rightarrow> bool" where
  "subscribers_keep_out e =
     ((\<forall>f tag evt p x. same_for_init (gap_code e f tag evt p x) x) \<and>
      (\<forall>f tag evt p x. same_for_init (gatts_code e f tag evt p x) x))"

definition still :: "env \<Rightarrow> 32 word \<Rightarrow> poll list \<Rightarrow> bool" where
  "still e timeout ps =
     list_all (\<lambda>p. list_all (\<lambda>m. \<not> completing e m) (fst p) \<and> snd p \<le> timeout) ps"

subsection \<open>Example data\<close>

text \<open>
  \<open>state0\<close> is the state at program start (zero-initialised variables, nothing in
  memory, nothing done yet); \<open>env0\<close> is a substrate that accepts every request, with
  subscriber code that does nothing.
\<close>

definition env0 :: env where
  "env0 = \<lparr>substrate = (\<lambda>tr rq. 0), cfw_handle = 1, core_service_id = 7,
            gap_code = (\<lambda>f tag evt p s. s), gatts_code = (\<lambda>f tag evt p s. s)\<rparr>"

definition state0 :: state where
  "state0 = \<lparr>client_handle = 0, service_handle = 0, conn_handle = 0, connected = False,
              ble_client_gap_event_cb = 0, ble_client_gap_event_param = 0,
              ble_client_gatts_event_cb = 0, ble_client_gatts_event_param = 0,
              sync_response = 0, sync_status = BLE_STATUS_SUCCESS, sync_param = 0,
              mem = (\<lambda>a. None), trace = []\<rparr>"

text \<open>
  \<open>env1\<close> has a connection subscriber that stores a number for the tag it is called
  with at the address given as its user parameter, and that restarts advertising when
  the tag is the disconnection.  \<open>state1\<close> is a state with that subscriber registered
  at the address 42 with user parameter 43; \<open>state2\<close> is the state after an
  initialisation that was given null callbacks.
\<close>

definition env1 :: env where
  "env1 = env0\<lparr>gap_code := (\<lambda>f tag evt p s.
             let s1 = s\<lparr>mem := (mem s)(p \<mapsto> Obj_U16
                          (case tag of
                             BLE_CLIENT_GAP_EVENT_CONNECTED \<Rightarrow> 0
                           | BLE_CLIENT_GAP_EVENT_DISCONNECTED \<Rightarrow> 1
                           | BLE_CLIENT_GAP_EVENT_ADV_TIMEOUT \<Rightarrow> 2
                           | BLE_CLIENT_GAP_EVENT_CONN_TIMEOUT \<Rightarrow> 3
                           | BLE_CLIENT_GAP_EVENT_RSSI \<Rightarrow> 4))\<rparr>
             in if tag = BLE_CLIENT_GAP_EVENT_DISCONNECTED
                then snd (ble_client_gap_start_advertise env0 180 s1) else s1)\<rparr>"

definition state1 :: state where
  "state1 = state0\<lparr>service_handle := 5, ble_client_gap_event_cb := 42, ble_client_gap_event_param := 43\<rparr>"

definition state2 :: state where
  "state2 = state0\<lparr>client_handle := 1, service_handle := 5, sync_response := 1,
              trace := [Cfw_Platform_Nordic_Init, Cfw_Init, Request (Cfw_Register_Svc_Available 1 7),
                        Cfw_Msg_Free (MSG_ID_CFW_SVC_AVAIL_EVT 7), Request (Cfw_Open_Service 1 7),
                        Cfw_Msg_Free (MSG_ID_CFW_OPEN_SERVICE 5)]\<rparr>"

text \<open>\<open>state3\<close> is \<open>state1\<close> after a connect event with the connection handle 9.\<close>

definition state3 :: state where
  "state3 = state1\<lparr>conn_handle := 9, connected := True, mem := (mem state1)(43 \<mapsto> Obj_U16 0),
              trace := [Cfw_Msg_Free (MSG_ID_BLE_GAP_CONNECT_EVT
                          \<lparr>evt_conn_handle = 9, evt_timeout_reason = BLE_SVC_GAP_TO_OTHER 0\<rparr>)]\<rparr>"

section \<open>Properties\<close>

subsection \<open>Waiting\<close>

lemma inert_handle:
  "inert e m \<Longrightarrow> ble_core_client_handle_message e m s = Some (cfw_msg_free m s)"
  by (cases m)
     (simp_all add: ble_core_client_handle_message_def handle_msg_id_cfw_svc_avail_evt_def
        handle_msg_id_ble_gap_enable_adv_rsp_def handle_msg_id_ble_gap_disable_adv_rsp_def)

lemma deliver_inert:
  "list_all (inert e) ms \<Longrightarrow> deliver e ms s = Some (s\<lparr>trace := trace s @ map Cfw_Msg_Free ms\<rparr>)"
  by (induction ms arbitrary: s) (simp_all add: inert_handle cfw_msg_free_def)

lemma frees_Cons: "frees ((ms, t) # ps) = map Cfw_Msg_Free ms @ frees ps"
  by (simp add: frees_def)

lemma frees_Nil: "frees [] = []"
  by (simp add: frees_def)

lemma wait_loop_quiet:
  "sync_response s = 0 \<Longrightarrow> quiet e T ps \<Longrightarrow>
   wait_loop e T (ps @ rest) s = wait_loop e T rest (s\<lparr>trace := trace s @ frees ps\<rparr>)"
proof (induction ps arbitrary: s)
  case Nil
  then show ?case by (simp add: frees_Nil)
next
  case (Cons p ps)
  obtain ms t where p: "p = (ms, t)" by (cases p)
  from Cons.prems p have inert: "list_all (inert e) ms" and le: "t \<le> T" and q: "quiet e T ps"
    by (simp_all add: quiet_def)
  let ?s1 = "s\<lparr>trace := trace s @ map Cfw_Msg_Free ms\<rparr>"
  have r: "sync_response ?s1 = 0" using Cons.prems by simp
  have "wait_loop e T ((p # ps) @ rest) s = wait_loop e T (ps @ rest) ?s1"
    using Cons.prems(1) le by (simp add: p deliver_inert [OF inert] not_less [symmetric])
  also have "\<dots> = wait_loop e T rest (?s1\<lparr>trace := trace ?s1 @ frees ps\<rparr>)"
    by (rule Cons.IH [OF r q])
  finally show ?case by (simp add: p frees_Cons)
qed

lemma wait_loop_done:
  "sync_response s \<noteq> 0 \<Longrightarrow> wait_loop e T ps s = Some (BLE_STATUS_SUCCESS, ps, s)"
  by (cases ps) simp_all

lemma wait_completed:
  assumes "sync_response s = 0"
    and "before_deadline e qs t"
    and "ble_core_client_handle_message e m (s\<lparr>trace := trace s @ frees qs\<rparr>) = Some s'"
    and "sync_response s' \<noteq> 0"
  shows "wait_for_condition e (qs @ ([m], t) # rest) s = Some (BLE_STATUS_SUCCESS, rest, s')"
proof (cases qs)
  case Nil
  with assms show ?thesis
    by (simp add: wait_for_condition_def frees_Nil wait_loop_done)
next
  case (Cons p ps)
  obtain ms t0 where p: "p = (ms, t0)" by (cases p)
  from assms(2) Cons p have inert: "list_all (inert e) ms" and q: "quiet e (t0 + 32768) ps"
    and le: "t \<le> t0 + 32768"
    by (simp_all add: before_deadline_def)
  let ?s1 = "s\<lparr>trace := trace s @ map Cfw_Msg_Free ms\<rparr>"
  have r: "sync_response ?s1 = 0" using assms(1) by simp
  have "wait_for_condition e (qs @ ([m], t) # rest) s = wait_loop e (t0 + 32768) (ps @ ([m], t) # rest) ?s1"
    by (simp add: Cons p wait_for_condition_def deliver_inert [OF inert])
  also have "\<dots> = wait_loop e (t0 + 32768) (([m], t) # rest) (?s1\<lparr>trace := trace ?s1 @ frees ps\<rparr>)"
    by (rule wait_loop_quiet [OF r q])
  also have "?s1\<lparr>trace := trace ?s1 @ frees ps\<rparr> = s\<lparr>trace := trace s @ frees qs\<rparr>"
    by (simp add: Cons p frees_Cons)
  also have "wait_loop e (t0 + 32768) (([m], t) # rest) (s\<lparr>trace := trace s @ frees qs\<rparr>)
             = Some (BLE_STATUS_SUCCESS, rest, s')"
    using assms(1,3,4) le by (simp add: not_less [symmetric] wait_loop_done)
  finally show ?thesis .
qed

lemma submitted_append: "submitted (xs @ ys) = submitted xs @ submitted ys"
  by (induction xs rule: submitted.induct) simp_all

lemma submitted_map_free: "submitted (map Cfw_Msg_Free ms) = []"
  by (induction ms) simp_all

lemma submitted_frees: "submitted (frees ps) = []"
  by (simp add: frees_def submitted_map_free)

lemma frees_append: "frees (ps @ qs) = frees ps @ frees qs"
  by (simp add: frees_def)

lemma wait_for_condition_times_out:
  assumes "sync_response s = 0"
    and "list_all (inert e) ms0"
    and "quiet e (t0 + 32768) qs"
    and "list_all (inert e) ms"
    and "t0 + 32768 < t"
  shows "wait_for_condition e ((ms0, t0) # qs @ (ms, t) # rest) s =
           Some (BLE_STATUS_TIMEOUT, rest, s\<lparr>trace := trace s @ frees ((ms0, t0) # qs @ [(ms, t)])\<rparr>)"
proof -
  let ?s1 = "s\<lparr>trace := trace s @ map Cfw_Msg_Free ms0\<rparr>"
  let ?s2 = "?s1\<lparr>trace := trace ?s1 @ frees qs\<rparr>"
  have r1: "sync_response ?s1 = 0" using assms(1) by simp
  have r2: "sync_response ?s2 = 0" using assms(1) by simp
  have "wait_for_condition e ((ms0, t0) # qs @ (ms, t) # rest) s =
          wait_loop e (t0 + 32768) (qs @ (ms, t) # rest) ?s1"
    by (simp add: wait_for_condition_def deliver_inert [OF assms(2)])
  also have "\<dots> = wait_loop e (t0 + 32768) ((ms, t) # rest) ?s2"
    by (rule wait_loop_quiet [OF r1 assms(3)])
  also have "\<dots> = Some (BLE_STATUS_TIMEOUT, rest, ?s2\<lparr>trace := trace ?s2 @ map Cfw_Msg_Free ms\<rparr>)"
    using r2 assms(5) by (simp add: deliver_inert [OF assms(4)])
  finally show ?thesis
    by (simp add: frees_Cons frees_append frees_Nil)
qed

lemma timeout_not_before_budget:
  fixes t0 t :: "32 word"
  assumes "unat t0 + 32768 < 2 ^ 32" and "t0 + 32768 < t"
  shows "32768 < unat t - unat t0"
proof -
  have "unat (t0 + 32768) = unat t0 + unat (32768 :: 32 word)"
    using assms(1) by (subst unat_add_lem [symmetric]) simp
  then have "unat (t0 + 32768) = unat t0 + 32768" by simp
  with assms(2) show ?thesis by (simp add: word_less_nat_alt)
qed

lemma quiet_poll_within_budget:
  fixes t0 t :: "32 word"
  assumes "unat t0 + 32768 < 2 ^ 32" and "t \<le> t0 + 32768"
  shows "unat t \<le> unat t0 + 32768"
proof -
  have "unat (t0 + 32768) = unat t0 + unat (32768 :: 32 word)"
    using assms(1) by (subst unat_add_lem [symmetric]) simp
  then have "unat (t0 + 32768) = unat t0 + 32768" by simp
  with assms(2) show ?thesis by (simp add: word_le_nat_alt)
qed

lemma wait_timeout_within_bounds:
  assumes "sync_response s = 0"
    and "list_all (inert e) ms0"
    and "quiet e (t0 + 32768) qs"
    and "list_all (inert e) ms"
    and "t0 + 32768 < t"
    and "unat t0 + 32768 < 2 ^ 32"
  shows "wait_for_condition e ((ms0, t0) # qs @ (ms, t) # rest) s =
           Some (BLE_STATUS_TIMEOUT, rest, s\<lparr>trace := trace s @ frees ((ms0, t0) # qs @ [(ms, t)])\<rparr>) \<and>
         32768 < unat t - unat t0 \<and>
         (\<forall>p \<in> set qs. unat (snd p) \<le> unat t0 + 32768)"
proof -
  have "unat (snd p) \<le> unat t0 + 32768" if "p \<in> set qs" for p
  proof -
    from assms(3) that have "snd p \<le> t0 + 32768"
      by (simp add: quiet_def list_all_iff)
    with assms(6) show ?thesis
      by (rule quiet_poll_within_budget)
  qed
  with wait_for_condition_times_out [OF assms(1-5)] timeout_not_before_budget [OF assms(6,5)]
  show ?thesis by blast
qed

lemma wait_loop_never_times_out:
  fixes T :: "32 word"
  assumes "T = - 1"
  shows "wait_loop e T ps s = Some (st, ps', s') \<Longrightarrow> st = BLE_STATUS_SUCCESS"
proof (induction ps arbitrary: s)
  case Nil
  then show ?case by (simp split: if_splits)
next
  case (Cons p ps)
  have "\<not> T < t" for t
    using assms by (simp add: not_less)
  with Cons show ?case
    by (cases p) (auto split: if_splits option.splits)
qed

lemma wait_spins_at_last_start_value:
  assumes "wait_for_condition e ((ms0, 0xFFFF7FFF) # ps) s = Some (st, ps', s')"
  shows "st = BLE_STATUS_SUCCESS"
proof -
  have T: "(0xFFFF7FFF :: 32 word) + 32768 = - 1" by simp
  from assms obtain s1 where "wait_loop e (0xFFFF7FFF + 32768) ps s1 = Some (st, ps', s')"
    by (auto simp: wait_for_condition_def split: option.splits simp del: wait_loop.simps)
  then show ?thesis
    by (rule wait_loop_never_times_out [OF T])
qed

text \<open>
  Claim C3.  The wait computes its deadline as the first clock read plus 32768 in
  32-bit arithmetic.  When the sum does not wrap around, the lemmas above give the
  bounds: Timeout is returned at the first clock read beyond the deadline, more than
  32768 ticks after the start, and every read before it was still within the deadline.
  When the sum wraps around the bounds fail.  Started at the tick 0xFFFF8000 the deadline
  is 0, and the wait returns Timeout at the next clock read, one tick later; so does a
  blocking operation that uses it.  Started at the tick 0xFFFF7FFF the deadline is the
  largest tick count, and the wait never returns Timeout.
\<close>

theorem wait_times_out_early_at_wraparound:
  "wait_for_condition env0 [([], 0xFFFF8000), ([], 0xFFFF8001)] state0 =
     Some (BLE_STATUS_TIMEOUT, [], state0) \<and>
   unat (0xFFFF8001 - 0xFFFF8000 :: 32 word) = 1 \<and>
   ble_client_gap_wr_adv_data env0 60 3 [([], 0xFFFF8000), ([], 0xFFFF8001)] state0 =
     Some (BLE_STATUS_TIMEOUT, [], state0\<lparr>trace := [Request (Ble_Gap_Wr_Adv_Data 0 60 3)]\<rparr>)"
  by (simp add: wait_for_condition_def ble_client_gap_wr_adv_data_def wait_and_harvest_def
      submit_def env0_def state0_def)

subsection \<open>Blocking calls\<close>

text \<open>
  Claim C1.  For the four blocking operations with an out-parameter destination (read
  local address, add service, add characteristic, add descriptor): when the substrate
  accepts the request and the dispatcher is handed the Success response while the clock
  reads of the wait are still within the deadline, the call returns Success and the
  destination holds exactly the payload of the response.  Nothing else in the memory of
  the caller is written.
\<close>

theorem blocking_call_delivers_out_parameter:
  assumes dest: "dest \<noteq> 0"
    and sched: "before_deadline e qs t"
  shows
    "(substrate e (trace s) (Ble_Gap_Read_Bda (service_handle s)) = 0 \<longrightarrow>
        ble_client_gap_get_bda e dest
          (qs @ ([MSG_ID_BLE_GAP_RD_BDA_RSP BLE_STATUS_SUCCESS bd], t) # rest) s =
        Some (BLE_STATUS_SUCCESS, rest,
          s\<lparr>sync_response := 1, sync_status := BLE_STATUS_SUCCESS, sync_param := dest,
            mem := (mem s)(dest \<mapsto> Obj_Bda bd),
            trace := trace s @ [Request (Ble_Gap_Read_Bda (service_handle s))] @ frees qs @
                     [Cfw_Msg_Free (MSG_ID_BLE_GAP_RD_BDA_RSP BLE_STATUS_SUCCESS bd)]\<rparr>)) \<and>
     (substrate e (trace s) (Ble_Gatts_Add_Service (service_handle s) uuid type) = 0 \<longrightarrow>
        ble_client_gatts_add_service e uuid type dest
          (qs @ ([MSG_ID_BLE_GATTS_ADD_SERVICE_RSP BLE_STATUS_SUCCESS h], t) # rest) s =
        Some (BLE_STATUS_SUCCESS, rest,
          s\<lparr>sync_response := 1, sync_status := BLE_STATUS_SUCCESS, sync_param := dest,
            mem := (mem s)(dest \<mapsto> Obj_U16 h),
            trace := trace s @ [Request (Ble_Gatts_Add_Service (service_handle s) uuid type)] @ frees qs @
                     [Cfw_Msg_Free (MSG_ID_BLE_GATTS_ADD_SERVICE_RSP BLE_STATUS_SUCCESS h)]\<rparr>)) \<and>
     (substrate e (trace s) (Ble_Gatts_Add_Characteristic (service_handle s) svc char_data) = 0 \<longrightarrow>
        ble_client_gatts_add_characteristic e svc char_data dest
          (qs @ ([MSG_ID_BLE_GATTS_ADD_CHARACTERISTIC_RSP BLE_STATUS_SUCCESS hs], t) # rest) s =
        Some (BLE_STATUS_SUCCESS, rest,
          s\<lparr>sync_response := 1, sync_status := BLE_STATUS_SUCCESS, sync_param := dest,
            mem := (mem s)(dest \<mapsto> Obj_Char_Handles hs),
            trace := trace s @ [Request (Ble_Gatts_Add_Characteristic (service_handle s) svc char_data)] @
                     frees qs @
                     [Cfw_Msg_Free (MSG_ID_BLE_GATTS_ADD_CHARACTERISTIC_RSP BLE_STATUS_SUCCESS hs)]\<rparr>)) \<and>
     (substrate e (trace s) (Ble_Gatts_Add_Descriptor (service_handle s) desc) = 0 \<longrightarrow>
        ble_client_gatts_add_descriptor e svc desc dest
          (qs @ ([MSG_ID_BLE_GATTS_ADD_DESCRIPTOR_RSP BLE_STATUS_SUCCESS h], t) # rest) s =
        Some (BLE_STATUS_SUCCESS, rest,
          s\<lparr>sync_response := 1, sync_status := BLE_STATUS_SUCCESS, sync_param := dest,
            mem := (mem s)(dest \<mapsto> Obj_U16 h),
            trace := trace s @ [Request (Ble_Gatts_Add_Descriptor (service_handle s) desc)] @ frees qs @
                     [Cfw_Msg_Free (MSG_ID_BLE_GATTS_ADD_DESCRIPTOR_RSP BLE_STATUS_SUCCESS h)]\<rparr>))"
proof -
  have armed: "wait_and_harvest e (qs @ ([m], t) # rest)
                 (s\<lparr>sync_response := 0, sync_param := dest, trace := trace s @ [Request rq]\<rparr>) =
               Some (sync_status s', rest, s')"
    if "ble_core_client_handle_message e m
          (s\<lparr>sync_response := 0, sync_param := dest, trace := trace s @ [Request rq] @ frees qs\<rparr>) = Some s'"
      and "sync_response s' \<noteq> 0"
    for m rq s'
  proof -
    have "wait_for_condition e (qs @ ([m], t) # rest)
            (s\<lparr>sync_response := 0, sync_param := dest, trace := trace s @ [Request rq]\<rparr>) =
          Some (BLE_STATUS_SUCCESS, rest, s')"
      by (rule wait_completed [OF _ sched]) (use that in simp_all)
    then show ?thesis by (simp add: wait_and_harvest_def)
  qed
  have bda: "ble_client_gap_get_bda e dest (qs @ ([MSG_ID_BLE_GAP_RD_BDA_RSP BLE_STATUS_SUCCESS bd], t) # rest) s =
        Some (BLE_STATUS_SUCCESS, rest,
          s\<lparr>sync_response := 1, sync_status := BLE_STATUS_SUCCESS, sync_param := dest,
            mem := (mem s)(dest \<mapsto> Obj_Bda bd),
            trace := trace s @ [Request (Ble_Gap_Read_Bda (service_handle s))] @ frees qs @
                     [Cfw_Msg_Free (MSG_ID_BLE_GAP_RD_BDA_RSP BLE_STATUS_SUCCESS bd)]\<rparr>)"
    (is "_ = Some (_, _, ?final)")
    if ok: "substrate e (trace s) (Ble_Gap_Read_Bda (service_handle s)) = 0"
  proof -
    have "ble_core_client_handle_message e (MSG_ID_BLE_GAP_RD_BDA_RSP BLE_STATUS_SUCCESS bd)
            (s\<lparr>sync_response := 0, sync_param := dest,
               trace := trace s @ [Request (Ble_Gap_Read_Bda (service_handle s))] @ frees qs\<rparr>) = Some ?final"
      using dest by (simp add: ble_core_client_handle_message_def handle_msg_id_ble_gap_rd_bda_rsp_def cfw_msg_free_def)
    then have "wait_and_harvest e (qs @ ([MSG_ID_BLE_GAP_RD_BDA_RSP BLE_STATUS_SUCCESS bd], t) # rest)
            (s\<lparr>sync_response := 0, sync_param := dest, trace := trace s @ [Request (Ble_Gap_Read_Bda (service_handle s))]\<rparr>) =
          Some (sync_status ?final, rest, ?final)"
      by (rule armed) simp
    then show ?thesis
      using ok by (simp add: ble_client_gap_get_bda_def submit_def)
  qed
  have svc: "ble_client_gatts_add_service e uuid type dest (qs @ ([MSG_ID_BLE_GATTS_ADD_SERVICE_RSP BLE_STATUS_SUCCESS h], t) # rest) s =
        Some (BLE_STATUS_SUCCESS, rest,
          s\<lparr>sync_response := 1, sync_status := BLE_STATUS_SUCCESS, sync_param := dest,
            mem := (mem s)(dest \<mapsto> Obj_U16 h),
            trace := trace s @ [Request (Ble_Gatts_Add_Service (service_handle s) uuid type)] @ frees qs @
                     [Cfw_Msg_Free (MSG_ID_BLE_GATTS_ADD_SERVICE_RSP BLE_STATUS_SUCCESS h)]\<rparr>)"
    (is "_ = Some (_, _, ?final)")
    if ok: "substrate e (trace s) (Ble_Gatts_Add_Service (service_handle s) uuid type) = 0"
  proof -
    have "ble_core_client_handle_message e (MSG_ID_BLE_GATTS_ADD_SERVICE_RSP BLE_STATUS_SUCCESS h)
            (s\<lparr>sync_response := 0, sync_param := dest,
               trace := trace s @ [Request (Ble_Gatts_Add_Service (service_handle s) uuid type)] @ frees qs\<rparr>) = Some ?final"
      using dest by (simp add: ble_core_client_handle_message_def handle_msg_id_gatts_add_service_rsp_def cfw_msg_free_def)
    then have "wait_and_harvest e (qs @ ([MSG_ID_BLE_GATTS_ADD_SERVICE_RSP BLE_STATUS_SUCCESS h], t) # rest)
            (s\<lparr>sync_response := 0, sync_param := dest, trace := trace s @ [Request (Ble_Gatts_Add_Service (service_handle s) uuid type)]\<rparr>) =
          Some (sync_status ?final, rest, ?final)"
      by (rule armed) simp
    then show ?thesis
      using ok by (simp add: ble_client_gatts_add_service_def submit_def)
  qed
  have chr: "ble_client_gatts_add_characteristic e svc char_data dest (qs @ ([MSG_ID_BLE_GATTS_ADD_CHARACTERISTIC_RSP BLE_STATUS_SUCCESS hs], t) # rest) s =
        Some (BLE_STATUS_SUCCESS, rest,
          s\<lparr>sync_response := 1, sync_status := BLE_STATUS_SUCCESS, sync_param := dest,
            mem := (mem s)(dest \<mapsto> Obj_Char_Handles hs),
            trace := trace s @ [Request (Ble_Gatts_Add_Characteristic (service_handle s) svc char_data)] @ frees qs @
                     [Cfw_Msg_Free (MSG_ID_BLE_GATTS_ADD_CHARACTERISTIC_RSP BLE_STATUS_SUCCESS hs)]\<rparr>)"
    (is "_ = Some (_, _, ?final)")
    if ok: "substrate e (trace s) (Ble_Gatts_Add_Characteristic (service_handle s) svc char_data) = 0"
  proof -
    have "ble_core_client_handle_message e (MSG_ID_BLE_GATTS_ADD_CHARACTERISTIC_RSP BLE_STATUS_SUCCESS hs)
            (s\<lparr>sync_response := 0, sync_param := dest,
               trace := trace s @ [Request (Ble_Gatts_Add_Characteristic (service_handle s) svc char_data)] @ frees qs\<rparr>) = Some ?final"
      using dest by (simp add: ble_core_client_handle_message_def handle_msg_id_gatts_add_characteristic_rsp_def cfw_msg_free_def)
    then have "wait_and_harvest e (qs @ ([MSG_ID_BLE_GATTS_ADD_CHARACTERISTIC_RSP BLE_STATUS_SUCCESS hs], t) # rest)
            (s\<lparr>sync_response := 0, sync_param := dest, trace := trace s @ [Request (Ble_Gatts_Add_Characteristic (service_handle s) svc char_data)]\<rparr>) =
          Some (sync_status ?final, rest, ?final)"
      by (rule armed) simp
    then show ?thesis
      using ok by (simp add: ble_client_gatts_add_characteristic_def submit_def)
  qed
  have dsc: "ble_client_gatts_add_descriptor e svc desc dest (qs @ ([MSG_ID_BLE_GATTS_ADD_DESCRIPTOR_RSP BLE_STATUS_SUCCESS h], t) # rest) s =
        Some (BLE_STATUS_SUCCESS, rest,
          s\<lparr>sync_response := 1, sync_status := BLE_STATUS_SUCCESS, sync_param := dest,
            mem := (mem s)(dest \<mapsto> Obj_U16 h),
            trace := trace s @ [Request (Ble_Gatts_Add_Descriptor (service_handle s) desc)] @ frees qs @
                     [Cfw_Msg_Free (MSG_ID_BLE_GATTS_ADD_DESCRIPTOR_RSP BLE_STATUS_SUCCESS h)]\<rparr>)"
    (is "_ = Some (_, _, ?final)")
    if ok: "substrate e (trace s) (Ble_Gatts_Add_Descriptor (service_handle s) desc) = 0"
  proof -
    have "ble_core_client_handle_message e (MSG_ID_BLE_GATTS_ADD_DESCRIPTOR_RSP BLE_STATUS_SUCCESS h)
            (s\<lparr>sync_response := 0, sync_param := dest,
               trace := trace s @ [Request (Ble_Gatts_Add_Descriptor (service_handle s) desc)] @ frees qs\<rparr>) = Some ?final"
      using dest by (simp add: ble_core_client_handle_message_def handle_msg_id_gatts_add_desc_rsp_def cfw_msg_free_def)
    then have "wait_and_harvest e (qs @ ([MSG_ID_BLE_GATTS_ADD_DESCRIPTOR_RSP BLE_STATUS_SUCCESS h], t) # rest)
            (s\<lparr>sync_response := 0, sync_param := dest, trace := trace s @ [Request (Ble_Gatts_Add_Descriptor (service_handle s) desc)]\<rparr>) =
          Some (sync_status ?final, rest, ?final)"
      by (rule armed) simp
    then show ?thesis
      using ok by (simp add: ble_client_gatts_add_descriptor_def submit_def)
  qed
  from bda svc chr dsc show ?thesis by blast
qed

theorem blocking_call_delivers_out_parameter_witness:
  "(100::nat) \<noteq> 0 \<and>
   before_deadline env0 [([], 1000), ([MSG_ID_BLE_GAP_ENABLE_ADV_RSP BLE_STATUS_SUCCESS], 1500)] 2000 \<and>
   substrate env0 (trace state0) (Ble_Gatts_Add_Characteristic (service_handle state0) 12 50) = 0 \<and>
   ble_client_gatts_add_characteristic env0 12 50 100
     [([], 1000), ([MSG_ID_BLE_GAP_ENABLE_ADV_RSP BLE_STATUS_SUCCESS], 1500),
      ([MSG_ID_BLE_GATTS_ADD_CHARACTERISTIC_RSP BLE_STATUS_SUCCESS
          \<lparr>value_handle = 0x10, cccd_handle = 0x11\<rparr>], 2000)] state0 =
   Some (BLE_STATUS_SUCCESS, [],
     state0\<lparr>sync_response := 1, sync_status := BLE_STATUS_SUCCESS, sync_param := 100,
       mem := (mem state0)(100 \<mapsto> Obj_Char_Handles \<lparr>value_handle = 0x10, cccd_handle = 0x11\<rparr>),
       trace := [Request (Ble_Gatts_Add_Characteristic 0 12 50),
                 Cfw_Msg_Free (MSG_ID_BLE_GAP_ENABLE_ADV_RSP BLE_STATUS_SUCCESS),
                 Cfw_Msg_Free (MSG_ID_BLE_GATTS_ADD_CHARACTERISTIC_RSP BLE_STATUS_SUCCESS
                   \<lparr>value_handle = 0x10, cccd_handle = 0x11\<rparr>)]\<rparr>)"
proof -
  have d: "(100::nat) \<noteq> 0" by simp
  have b: "before_deadline env0 [([], 1000), ([MSG_ID_BLE_GAP_ENABLE_ADV_RSP BLE_STATUS_SUCCESS], 1500)] 2000"
    by (simp add: before_deadline_def quiet_def)
  have a: "substrate env0 (trace state0) (Ble_Gatts_Add_Characteristic (service_handle state0) 12 50) = 0"
    by (simp add: env0_def)
  show ?thesis
    using d b a
      blocking_call_delivers_out_parameter [OF d b,
        where s = state0 and svc = 12 and char_data = 50 and rest = "[]"
          and hs = "\<lparr>value_handle = 0x10, cccd_handle = 0x11\<rparr>"]
    by (simp add: frees_def state0_def)
qed

text \<open>
  Claim C2.  The operations that need a connection (send notification or indication,
  disconnect, set signal-strength reporting) return WrongState at once when the session
  is not connected: the state is returned as it was, so no request is in the trace and
  the pending-request slot is not armed, and the schedule is returned as it was, so the
  clock is never read.
\<close>

theorem wrong_state_without_submission:
  assumes "\<not> connected s"
  shows "ble_client_gatts_send_notif_ind e value_handle' len p_value offset indication sched s =
           Some (BLE_STATUS_WRONG_STATE, sched, s) \<and>
         ble_client_gap_disconnect e reason sched s = Some (BLE_STATUS_WRONG_STATE, sched, s) \<and>
         ble_client_gap_set_rssi_report e enable sched s = Some (BLE_STATUS_WRONG_STATE, sched, s)"
  using assms
  by (simp add: ble_client_gatts_send_notif_ind_def ble_client_gap_disconnect_def
      ble_client_gap_set_rssi_report_def)

theorem wrong_state_without_submission_witness:
  "\<not> connected state0 \<and>
   ble_client_gatts_send_notif_ind env0 3 2 200 0 True [([], 5)] state0 =
     Some (BLE_STATUS_WRONG_STATE, [([], 5)], state0) \<and>
   ble_client_gatts_send_notif_ind env0 3 2 200 0 False [([], 5)] state0 =
     Some (BLE_STATUS_WRONG_STATE, [([], 5)], state0) \<and>
   ble_client_gap_disconnect env0 19 [([], 5)] state0 = Some (BLE_STATUS_WRONG_STATE, [([], 5)], state0) \<and>
   ble_client_gap_set_rssi_report env0 True [([], 5)] state0 =
     Some (BLE_STATUS_WRONG_STATE, [([], 5)], state0) \<and>
   trace state0 = [] \<and> sync_response state0 = 0"
proof -
  have d: "\<not> connected state0" by (simp add: state0_def)
  show ?thesis
    using d wrong_state_without_submission [OF d, of env0 3 2 200 0 True "[([], 5)]" 19 True]
      wrong_state_without_submission [OF d, of env0 3 2 200 0 False "[([], 5)]" 19 True]
    by (simp add: state0_def)
qed

text \<open>
  Claim C7.  Starting and stopping advertising hand one request to the substrate and
  return its return code as it is.  They take no schedule, so they never read the clock
  or wait, and they leave the three fields of the pending-request slot as they are:
  their result is the outcome of the submission and nothing else.
\<close>

theorem fire_and_forget_advertising:
  "ble_client_gap_start_advertise e timeout s =
     (substrate e (trace s)
        (Ble_Gap_Start_Advertise (service_handle s)
           \<lparr>adv_timeout = timeout, adv_interval_min = 32, adv_interval_max = 32,
            adv_type = 0, adv_filter_policy = 0, adv_p_peer_bda = 0\<rparr>),
      s\<lparr>trace := trace s @
           [Request (Ble_Gap_Start_Advertise (service_handle s)
              \<lparr>adv_timeout = timeout, adv_interval_min = 32, adv_interval_max = 32,
               adv_type = 0, adv_filter_policy = 0, adv_p_peer_bda = 0\<rparr>)]\<rparr>) \<and>
   ble_client_gap_stop_advertise e s =
     (substrate e (trace s) (Ble_Gap_Stop_Advertise (service_handle s)),
      s\<lparr>trace := trace s @ [Request (Ble_Gap_Stop_Advertise (service_handle s))]\<rparr>) \<and>
   sync_response (snd (ble_client_gap_start_advertise e timeout s)) = sync_response s \<and>
   sync_status (snd (ble_client_gap_start_advertise e timeout s)) = sync_status s \<and>
   sync_param (snd (ble_client_gap_start_advertise e timeout s)) = sync_param s \<and>
   sync_response (snd (ble_client_gap_stop_advertise e s)) = sync_response s \<and>
   sync_status (snd (ble_client_gap_stop_advertise e s)) = sync_status s \<and>
   sync_param (snd (ble_client_gap_stop_advertise e s)) = sync_param s"
  by (simp add: ble_client_gap_start_advertise_def ble_client_gap_stop_advertise_def submit_def
      APP_ULTRA_FAST_ADV_INTERVAL_def BLE_GAP_ADV_TYPE_ADV_IND_def BLE_GAP_ADV_FP_ANY_def Let_def)

subsection \<open>Initialisation\<close>

text \<open>An initialisation that succeeds: the availability event, the delay, the open response.\<close>

lemma init_example:
  "ble_client_init env0 0 0 0 0
     [([MSG_ID_CFW_SVC_AVAIL_EVT 7], 100), ([], 101), ([], 140), ([MSG_ID_CFW_OPEN_SERVICE 5], 150)]
     state0 =
   Some (BLE_STATUS_SUCCESS, [],
     state2)"
  by (simp add: ble_client_init_def wait_for_condition_def submit_def
      ble_core_client_handle_message_def handle_msg_id_cfw_svc_avail_evt_def
      handle_msg_id_cfw_open_svc_def cfw_msg_free_def env0_def state0_def state2_def Let_def)

lemma open_requests_append: "open_requests (xs @ ys) = open_requests xs @ open_requests ys"
  by (simp add: open_requests_def submitted_append)

lemma open_requests_free: "open_requests [Cfw_Msg_Free m] = []"
  by (simp add: open_requests_def)

lemma same_for_init_trans:
  "same_for_init s2 s1 \<Longrightarrow> same_for_init s1 s \<Longrightarrow> same_for_init s2 s"
  by (simp add: same_for_init_def)

lemma handle_not_completing:
  assumes "subscribers_keep_out e" and "\<not> completing e m"
  shows "\<exists>s'. ble_core_client_handle_message e m s = Some s' \<and> same_for_init s' s"
proof -
  from assms(1) have g0: "same_for_init (gap_code e f tag evt p x) x"
    and w0: "same_for_init (gatts_code e f' tag' evt' p' x') x'"
    for f tag evt p x f' tag' evt' p' x'
    by (simp_all add: subscribers_keep_out_def)
  have g: "same_for_init (gap_code e f tag evt p x) s" if "same_for_init x s" for f tag evt p x
    using g0 that by (rule same_for_init_trans)
  have w: "same_for_init (gatts_code e f tag evt p x) s" if "same_for_init x s" for f tag evt p x
    using w0 that by (rule same_for_init_trans)
  have free: "same_for_init (cfw_msg_free m' x) s" if "same_for_init x s" for x m'
    using that by (simp add: same_for_init_def cfw_msg_free_def open_requests_append open_requests_free)
  have upd: "same_for_init (s\<lparr>connected := b\<rparr>) s"
    "same_for_init (s\<lparr>conn_handle := h, connected := b\<rparr>) s" "same_for_init s s" for b h
    by (simp_all add: same_for_init_def)
  from assms(2) show ?thesis
    by (cases m)
       (auto simp: ble_core_client_handle_message_def handle_msg_id_cfw_svc_avail_evt_def
          handle_msg_id_ble_gap_enable_adv_rsp_def handle_msg_id_ble_gap_disable_adv_rsp_def
          handle_msg_id_ble_gap_connect_evt_msg_def handle_msg_id_ble_gap_disconnect_evt_msg_def
          handle_msg_id_ble_gap_timeout_evt_msg_def handle_msg_id_ble_gap_rssi_evt_msg_def
          handle_msg_id_ble_gatts_write_evt_msg_def call_gap_event_cb_def call_gatts_event_cb_def
          Let_def split: gap_to_reason.splits
          intro!: free g w upd)
qed

lemma deliver_append:
  "deliver e (xs @ ys) s = (case deliver e xs s of None \<Rightarrow> None | Some s1 \<Rightarrow> deliver e ys s1)"
  by (induction xs arbitrary: s) (simp_all split: option.splits)

lemma deliver_not_completing:
  assumes "subscribers_keep_out e"
  shows "list_all (\<lambda>m. \<not> completing e m) ms \<Longrightarrow>
         \<exists>s'. deliver e ms s = Some s' \<and> same_for_init s' s"
proof (induction ms arbitrary: s)
  case Nil
  then show ?case by (simp add: same_for_init_def)
next
  case (Cons m ms)
  then have m: "\<not> completing e m" and ms: "list_all (\<lambda>m. \<not> completing e m) ms"
    by simp_all
  from handle_not_completing [OF assms m] obtain s1
    where s1: "ble_core_client_handle_message e m s = Some s1" "same_for_init s1 s"
    by blast
  from Cons.IH [OF ms] obtain s' where "deliver e ms s1 = Some s'" "same_for_init s' s1"
    by blast
  with s1 show ?case
    by (auto intro: same_for_init_trans)
qed

lemma wait_loop_still:
  assumes "subscribers_keep_out e"
  shows "sync_response s = 0 \<Longrightarrow> still e T ps \<Longrightarrow>
         \<exists>s'. deliver e (concat (map fst ps)) s = Some s' \<and> same_for_init s' s \<and>
              wait_loop e T (ps @ rest) s = wait_loop e T rest s'"
proof (induction ps arbitrary: s)
  case Nil
  then show ?case by (simp add: same_for_init_def)
next
  case (Cons p ps)
  obtain ms t where p: "p = (ms, t)" by (cases p)
  from Cons.prems p have ms: "list_all (\<lambda>m. \<not> completing e m) ms" and le: "t \<le> T"
    and q: "still e T ps"
    by (simp_all add: still_def)
  from deliver_not_completing [OF assms ms] obtain s1
    where s1: "deliver e ms s = Some s1" "same_for_init s1 s"
    by blast
  then have r: "sync_response s1 = 0"
    using Cons.prems(1) by (simp add: same_for_init_def)
  from Cons.IH [OF r q] obtain s'
    where s': "deliver e (concat (map fst ps)) s1 = Some s'" "same_for_init s' s1"
      "wait_loop e T (ps @ rest) s1 = wait_loop e T rest s'"
    by blast
  have "deliver e (concat (map fst (p # ps))) s = Some s'"
    using s1(1) s'(1) by (simp add: p deliver_append)
  moreover have "same_for_init s' s"
    using s'(2) s1(2) by (rule same_for_init_trans)
  moreover have "wait_loop e T ((p # ps) @ rest) s = wait_loop e T rest s'"
    using Cons.prems(1) le s1(1) s'(3) by (simp add: p not_less [symmetric])
  ultimately show ?case by blast
qed

lemma wait_for_condition_gives_up:
  assumes keep: "subscribers_keep_out e"
    and zero: "sync_response s = 0"
    and first: "list_all (\<lambda>m. \<not> completing e m) ms0"
    and polls: "still e (t0 + 32768) qs"
    and last: "list_all (\<lambda>m. \<not> completing e m) ms"
    and late: "t0 + 32768 < t"
  shows "\<exists>s'. deliver e (ms0 @ concat (map fst qs) @ ms) s = Some s' \<and> same_for_init s' s \<and>
              wait_for_condition e ((ms0, t0) # qs @ (ms, t) # rest) s =
                Some (BLE_STATUS_TIMEOUT, rest, s')"
proof -
  from deliver_not_completing [OF keep first] obtain s1
    where s1: "deliver e ms0 s = Some s1" "same_for_init s1 s"
    by blast
  then have r1: "sync_response s1 = 0"
    using zero by (simp add: same_for_init_def)
  from wait_loop_still [OF keep r1 polls] obtain s2
    where s2: "deliver e (concat (map fst qs)) s1 = Some s2" "same_for_init s2 s1"
      "wait_loop e (t0 + 32768) (qs @ (ms, t) # rest) s1 =
       wait_loop e (t0 + 32768) ((ms, t) # rest) s2"
    by blast
  then have r2: "sync_response s2 = 0"
    using r1 by (simp add: same_for_init_def)
  from deliver_not_completing [OF keep last] obtain s3
    where s3: "deliver e ms s2 = Some s3" "same_for_init s3 s2"
    by blast
  have "deliver e (ms0 @ concat (map fst qs) @ ms) s = Some s3"
    using s1(1) s2(1) s3(1) by (simp add: deliver_append)
  moreover have "same_for_init s3 s"
    using s3(2) s2(2) s1(2) by (blast intro: same_for_init_trans)
  moreover have "wait_for_condition e ((ms0, t0) # qs @ (ms, t) # rest) s =
                   Some (BLE_STATUS_TIMEOUT, rest, s3)"
    using s1(1) s2(3) r2 s3(1) late by (simp add: wait_for_condition_def)
  ultimately show ?thesis by blast
qed

lemma subscribers_keep_out_env1: "subscribers_keep_out env1"
  by (simp add: subscribers_keep_out_def same_for_init_def env1_def env0_def
      ble_client_gap_start_advertise_def submit_def Let_def open_requests_def submitted_append)

text \<open>
  The wait of initialisation is the wait of every blocking call, with its deadline
  computed in 32-bit arithmetic: started at the tick 0xFFFF8000 it gives up one tick later.
\<close>

lemma init_gives_up_early_at_wraparound:
  "ble_client_init env0 42 43 44 45 [([], 0xFFFF8000), ([], 0xFFFF8001)] state0 =
     Some (BLE_STATUS_TIMEOUT, [],
       state0\<lparr>client_handle := 1,
         trace := [Cfw_Platform_Nordic_Init, Cfw_Init, Request (Cfw_Register_Svc_Available 1 7)]\<rparr>)"
  by (simp add: ble_client_init_def wait_for_condition_def submit_def env0_def state0_def Let_def)

text \<open>
  Claim C8, as the code has it.  Initialisation first registers for the availability of
  the service and waits for the pending-request slot to be completed.  When the
  registration is accepted, no message that completes the slot arrives before the wait
  gives up, and the subscriber code keeps out of what initialisation uses, it returns
  Timeout at the clock read at which the wait gives up.  What it has done by then is the
  platform set-up, the registration and the arming of the slot; the rest of the state is
  what the dispatcher made of the messages that arrived.  No open-service request has
  been submitted, and the service handle and the four subscriber fields are as they
  were.
\<close>

theorem init_times_out_when_slot_not_completed:
  assumes accepted: "substrate e (trace s @ [Cfw_Platform_Nordic_Init, Cfw_Init])
                       (Cfw_Register_Svc_Available (cfw_handle e) (core_service_id e)) = 0"
    and keep: "subscribers_keep_out e"
    and first: "list_all (\<lambda>m. \<not> completing e m) ms0"
    and polls: "still e (t0 + 32768) qs"
    and last: "list_all (\<lambda>m. \<not> completing e m) ms"
    and late: "t0 + 32768 < t"
  shows "\<exists>s'. ble_client_init e gap_event_cb gap_event_param gatts_event_cb gatts_event_param
                 ((ms0, t0) # qs @ (ms, t) # rest) s = Some (BLE_STATUS_TIMEOUT, rest, s') \<and>
              deliver e (ms0 @ concat (map fst qs) @ ms)
                (s\<lparr>client_handle := cfw_handle e, sync_response := 0,
                   trace := trace s @
                     [Cfw_Platform_Nordic_Init, Cfw_Init,
                      Request (Cfw_Register_Svc_Available (cfw_handle e) (core_service_id e))]\<rparr>) =
                Some s' \<and>
              open_requests (trace s') = open_requests (trace s) \<and>
              service_handle s' = service_handle s \<and>
              ble_client_gap_event_cb s' = ble_client_gap_event_cb s \<and>
              ble_client_gap_event_param s' = ble_client_gap_event_param s \<and>
              ble_client_gatts_event_cb s' = ble_client_gatts_event_cb s \<and>
              ble_client_gatts_event_param s' = ble_client_gatts_event_param s"
proof -
  let ?rq = "Cfw_Register_Svc_Available (cfw_handle e) (core_service_id e)"
  let ?s4 = "s\<lparr>client_handle := cfw_handle e, sync_response := 0,
               trace := trace s @ [Cfw_Platform_Nordic_Init, Cfw_Init, Request ?rq]\<rparr>"
  have z: "sync_response ?s4 = 0" by simp
  from wait_for_condition_gives_up [OF keep z first polls last late] obtain s'
    where d: "deliver e (ms0 @ concat (map fst qs) @ ms) ?s4 = Some s'"
      and i: "same_for_init s' ?s4"
      and w: "wait_for_condition e ((ms0, t0) # qs @ (ms, t) # rest) ?s4 =
                Some (BLE_STATUS_TIMEOUT, rest, s')"
    by blast
  have "ble_client_init e gap_event_cb gap_event_param gatts_event_cb gatts_event_param
          ((ms0, t0) # qs @ (ms, t) # rest) s = Some (BLE_STATUS_TIMEOUT, rest, s')"
    using accepted w by (simp add: ble_client_init_def Let_def submit_def)
  moreover have "open_requests (trace s') = open_requests (trace s)"
    using i by (simp add: same_for_init_def open_requests_def submitted_append)
  ultimately show ?thesis
    using d i by (simp add: same_for_init_def)
qed

theorem init_times_out_when_slot_not_completed_witness:
  "substrate env1 (trace state1 @ [Cfw_Platform_Nordic_Init, Cfw_Init])
     (Cfw_Register_Svc_Available (cfw_handle env1) (core_service_id env1)) = 0 \<and>
   subscribers_keep_out env1 \<and>
   still env1 (10 + 32768)
     [([MSG_ID_BLE_GAP_DISCONNECT_EVT \<lparr>evt_conn_handle = 9, evt_timeout_reason = BLE_SVC_GAP_TO_OTHER 0\<rparr>],
       20000),
      ([MSG_ID_OTHER 99], 32778)] \<and>
   (10 :: 32 word) + 32768 < 32779 \<and>
   ble_client_init env1 52 53 54 55
     [([], 10),
      ([MSG_ID_BLE_GAP_DISCONNECT_EVT \<lparr>evt_conn_handle = 9, evt_timeout_reason = BLE_SVC_GAP_TO_OTHER 0\<rparr>],
       20000),
      ([MSG_ID_OTHER 99], 32778), ([], 32779), ([], 32780)] state1 =
     Some (BLE_STATUS_TIMEOUT, [([], 32780)],
       state1\<lparr>client_handle := 1, sync_response := 0,
         mem := (mem state1)(43 \<mapsto> Obj_U16 1),
         trace := [Cfw_Platform_Nordic_Init, Cfw_Init, Request (Cfw_Register_Svc_Available 1 7),
                   Request (Ble_Gap_Start_Advertise 5
                     \<lparr>adv_timeout = 180, adv_interval_min = 32, adv_interval_max = 32,
                      adv_type = 0, adv_filter_policy = 0, adv_p_peer_bda = 0\<rparr>),
                   Cfw_Msg_Free (MSG_ID_BLE_GAP_DISCONNECT_EVT
                     \<lparr>evt_conn_handle = 9, evt_timeout_reason = BLE_SVC_GAP_TO_OTHER 0\<rparr>),
                   Cfw_Msg_Free (MSG_ID_OTHER 99)]\<rparr>)"
  (is "?a \<and> ?k \<and> ?q \<and> ?l \<and> ?init = Some (_, _, ?final)")
proof -
  have a: ?a by (simp add: env1_def env0_def)
  have k: ?k by (rule subscribers_keep_out_env1)
  have f: "list_all (\<lambda>m. \<not> completing env1 m) []" by simp
  have q: ?q by (simp add: still_def)
  have l: ?l by simp
  note T = init_times_out_when_slot_not_completed [OF a k f q f l,
      where gap_event_cb = 52 and gap_event_param = 53 and gatts_event_cb = 54
        and gatts_event_param = 55 and rest = "[([], 32780)]"]
  have "?init = Some (BLE_STATUS_TIMEOUT, [([], 32780)], ?final)"
    using T
    by (simp add: ble_core_client_handle_message_def handle_msg_id_ble_gap_disconnect_evt_msg_def
        call_gap_event_cb_def cfw_msg_free_def env1_def env0_def state1_def state0_def
        ble_client_gap_start_advertise_def submit_def APP_ULTRA_FAST_ADV_INTERVAL_def
        BLE_GAP_ADV_TYPE_ADV_IND_def BLE_GAP_ADV_FP_ANY_def Let_def)
  with a k q l show ?thesis by simp
qed

text \<open>
  Claim C8, as stated, fails: the wait ends on any message that completes the slot.
  Here no availability event arrives; an open-service response (left over from an
  earlier attempt) ends the first wait, and initialisation submits the open-service
  request, stores the callbacks and returns Success.
\<close>

theorem init_opens_session_on_stray_response:
  "ble_client_init env0 42 43 44 45
     [([MSG_ID_CFW_OPEN_SERVICE 5], 100), ([], 101), ([], 140), ([MSG_ID_CFW_OPEN_SERVICE 5], 150)]
     state0 =
   Some (BLE_STATUS_SUCCESS, [],
     state0\<lparr>client_handle := 1, service_handle := 5, sync_response := 1,
       ble_client_gap_event_cb := 42, ble_client_gap_event_param := 43,
       ble_client_gatts_event_cb := 44, ble_client_gatts_event_param := 45,
       trace := [Cfw_Platform_Nordic_Init, Cfw_Init, Request (Cfw_Register_Svc_Available 1 7),
                 Cfw_Msg_Free (MSG_ID_CFW_OPEN_SERVICE 5), Request (Cfw_Open_Service 1 7),
                 Cfw_Msg_Free (MSG_ID_CFW_OPEN_SERVICE 5)]\<rparr>)"
  by (simp add: ble_client_init_def wait_for_condition_def submit_def
      ble_core_client_handle_message_def handle_msg_id_cfw_open_svc_def cfw_msg_free_def
      env0_def state0_def Let_def)

subsection \<open>Response handlers\<close>

text \<open>
  Claim C4.  The response handlers for read-address, add-service, add-characteristic
  and add-descriptor write the destination only for a Success response: with any other
  status they change nothing but the status and the completion flag of the slot, and
  the dispatcher leaves the memory as it was; with Success and a destination that is
  not NULL they store the payload at the destination and nowhere else.  With a NULL
  destination there is nothing to write, and they write nothing.
\<close>

theorem out_parameter_written_only_on_success:
  "(st \<noteq> BLE_STATUS_SUCCESS \<longrightarrow>
      handle_msg_id_ble_gap_rd_bda_rsp st bd s = s\<lparr>sync_status := st, sync_response := 1\<rparr> \<and>
      handle_msg_id_gatts_add_service_rsp st h s = s\<lparr>sync_status := st, sync_response := 1\<rparr> \<and>
      handle_msg_id_gatts_add_characteristic_rsp st hs s = s\<lparr>sync_status := st, sync_response := 1\<rparr> \<and>
      handle_msg_id_gatts_add_desc_rsp st h s = s\<lparr>sync_status := st, sync_response := 1\<rparr> \<and>
      (\<forall>m \<in> set [MSG_ID_BLE_GAP_RD_BDA_RSP st bd, MSG_ID_BLE_GATTS_ADD_SERVICE_RSP st h,
                  MSG_ID_BLE_GATTS_ADD_CHARACTERISTIC_RSP st hs, MSG_ID_BLE_GATTS_ADD_DESCRIPTOR_RSP st h].
         \<exists>s'. ble_core_client_handle_message e m s = Some s' \<and> mem s' = mem s)) \<and>
   (sync_param s \<noteq> 0 \<longrightarrow>
      mem (handle_msg_id_ble_gap_rd_bda_rsp BLE_STATUS_SUCCESS bd s) =
        (mem s)(sync_param s \<mapsto> Obj_Bda bd) \<and>
      mem (handle_msg_id_gatts_add_service_rsp BLE_STATUS_SUCCESS h s) =
        (mem s)(sync_param s \<mapsto> Obj_U16 h) \<and>
      mem (handle_msg_id_gatts_add_characteristic_rsp BLE_STATUS_SUCCESS hs s) =
        (mem s)(sync_param s \<mapsto> Obj_Char_Handles hs) \<and>
      mem (handle_msg_id_gatts_add_desc_rsp BLE_STATUS_SUCCESS h s) =
        (mem s)(sync_param s \<mapsto> Obj_U16 h)) \<and>
   (sync_param s = 0 \<longrightarrow>
      mem (handle_msg_id_ble_gap_rd_bda_rsp st bd s) = mem s \<and>
      mem (handle_msg_id_gatts_add_service_rsp st h s) = mem s \<and>
      mem (handle_msg_id_gatts_add_characteristic_rsp st hs s) = mem s \<and>
      mem (handle_msg_id_gatts_add_desc_rsp st h s) = mem s)"
  by (simp add: handle_msg_id_ble_gap_rd_bda_rsp_def handle_msg_id_gatts_add_service_rsp_def
      handle_msg_id_gatts_add_characteristic_rsp_def handle_msg_id_gatts_add_desc_rsp_def
      ble_core_client_handle_message_def cfw_msg_free_def)

theorem out_parameter_written_only_on_success_witness:
  "BLE_STATUS_REMOTE 5 \<noteq> BLE_STATUS_SUCCESS \<and> sync_param (state0\<lparr>sync_param := 100\<rparr>) \<noteq> 0 \<and>
   handle_msg_id_gatts_add_characteristic_rsp (BLE_STATUS_REMOTE 5)
     \<lparr>value_handle = 0x10, cccd_handle = 0x11\<rparr> (state0\<lparr>sync_param := 100\<rparr>) =
     state0\<lparr>sync_param := 100, sync_status := BLE_STATUS_REMOTE 5, sync_response := 1\<rparr> \<and>
   mem (handle_msg_id_gatts_add_characteristic_rsp BLE_STATUS_SUCCESS
     \<lparr>value_handle = 0x10, cccd_handle = 0x11\<rparr> (state0\<lparr>sync_param := 100\<rparr>)) 100 =
     Some (Obj_Char_Handles \<lparr>value_handle = 0x10, cccd_handle = 0x11\<rparr>)"
  using out_parameter_written_only_on_success
    [where st = "BLE_STATUS_REMOTE 5" and s = "state0\<lparr>sync_param := 100\<rparr>"
       and hs = "\<lparr>value_handle = 0x10, cccd_handle = 0x11\<rparr>" and e = env0 and bd = "[]" and h = 0]
  by (simp add: state0_def)

subsection \<open>Events\<close>

lemma message_switch_returns: "\<exists>s1. message_switch e m s = Some s1"
  by (cases m)
     (simp_all add: handle_msg_id_ble_gap_connect_evt_msg_def
        handle_msg_id_ble_gap_disconnect_evt_msg_def handle_msg_id_ble_gap_timeout_evt_msg_def
        handle_msg_id_ble_gap_rssi_evt_msg_def handle_msg_id_ble_gatts_write_evt_msg_def
        call_gap_event_cb_def call_gatts_event_cb_def Let_def split: gap_to_reason.split)

lemma message_switch_releases:
  assumes "subscribers_release_nothing e" and "message_switch e m s = Some s1"
  shows "releases m' (trace s1) = releases m' (trace s)"
proof -
  from assms(1) have g: "releases m' (trace (gap_code e f tag evt p x)) = releases m' (trace x)"
    and w: "releases m' (trace (gatts_code e f' tag' evt' p' x')) = releases m' (trace x')"
    for f tag evt p x f' tag' evt' p' x'
    by (simp_all add: subscribers_release_nothing_def)
  from assms(2) show ?thesis
    by (cases m)
       (auto simp: g w handle_msg_id_cfw_svc_avail_evt_def handle_msg_id_cfw_open_svc_def
          handle_msg_id_ble_gap_wr_conf_rsp_def handle_msg_id_ble_gap_rd_bda_rsp_def
          handle_msg_id_ble_gap_sm_config_rsp_def handle_msg_id_ble_gap_wr_adv_data_rsp_def
          handle_msg_id_ble_gap_enable_adv_rsp_def handle_msg_id_ble_gap_disable_adv_rsp_def
          handle_msg_id_gatts_add_service_rsp_def handle_msg_id_gatts_add_characteristic_rsp_def
          handle_msg_id_gatts_add_desc_rsp_def handle_msg_id_ble_gatts_set_attribute_value_rsp_def
          handle_msg_id_ble_gatts_send_notif_ind_rsp_def handle_msg_id_ble_gap_disconnect_rsp_def
          handle_msg_id_ble_gap_set_rssi_report_rsp_def
          handle_msg_id_ble_gap_connect_evt_msg_def
          handle_msg_id_ble_gap_disconnect_evt_msg_def handle_msg_id_ble_gap_timeout_evt_msg_def
          handle_msg_id_ble_gap_rssi_evt_msg_def handle_msg_id_ble_gatts_write_evt_msg_def
          call_gap_event_cb_def call_gatts_event_cb_def Let_def
          split: gap_to_reason.splits if_splits)
qed

lemma keeps_session_env1: "keeps_session env1"
  by (simp add: keeps_session_def env1_def env0_def ble_client_gap_start_advertise_def submit_def Let_def)

text \<open>
  Claim C5, as the code has it.  A timeout event sets Connected to false whatever its
  reason code is; with the advertising reason the flag is therefore unchanged only when
  it was false already.  When a connection subscriber is registered it is called once,
  in the state with Connected false: with the advertising-timeout tag for the advertising
  reason and with the connection-timeout tag for the connection-attempt reason.  Then
  the message is released.
\<close>

theorem timeout_event_clears_connected:
  "ble_core_client_handle_message e (MSG_ID_BLE_GAP_TO_EVT evt) s =
     Some (cfw_msg_free (MSG_ID_BLE_GAP_TO_EVT evt)
       (if ble_client_gap_event_cb s = 0 then s\<lparr>connected := False\<rparr>
        else (case evt_timeout_reason evt of
                BLE_SVC_GAP_TO_ADV \<Rightarrow>
                  gap_code e (ble_client_gap_event_cb s) BLE_CLIENT_GAP_EVENT_ADV_TIMEOUT evt
                    (ble_client_gap_event_param s) (s\<lparr>connected := False\<rparr>)
              | BLE_SVC_GAP_TO_CONN \<Rightarrow>
                  gap_code e (ble_client_gap_event_cb s) BLE_CLIENT_GAP_EVENT_CONN_TIMEOUT evt
                    (ble_client_gap_event_param s) (s\<lparr>connected := False\<rparr>)
              | BLE_SVC_GAP_TO_OTHER r \<Rightarrow> s\<lparr>connected := False\<rparr>))) \<and>
   (keeps_session e \<longrightarrow>
      (\<exists>s'. ble_core_client_handle_message e (MSG_ID_BLE_GAP_TO_EVT evt) s = Some s' \<and>
            \<not> connected s'))"
  by (cases "evt_timeout_reason evt")
     (simp_all add: ble_core_client_handle_message_def handle_msg_id_ble_gap_timeout_evt_msg_def
        call_gap_event_cb_def cfw_msg_free_def keeps_session_def)

theorem timeout_event_clears_connected_witness:
  "keeps_session env1 \<and>
   ble_core_client_handle_message env1
     (MSG_ID_BLE_GAP_TO_EVT \<lparr>evt_conn_handle = 1, evt_timeout_reason = BLE_SVC_GAP_TO_ADV\<rparr>)
     (state1\<lparr>connected := True\<rparr>) =
   Some (state1\<lparr>connected := False, mem := (mem state1)(43 \<mapsto> Obj_U16 2),
           trace := [Cfw_Msg_Free (MSG_ID_BLE_GAP_TO_EVT
                       \<lparr>evt_conn_handle = 1, evt_timeout_reason = BLE_SVC_GAP_TO_ADV\<rparr>)]\<rparr>) \<and>
   ble_core_client_handle_message env1
     (MSG_ID_BLE_GAP_TO_EVT \<lparr>evt_conn_handle = 1, evt_timeout_reason = BLE_SVC_GAP_TO_CONN\<rparr>)
     (state1\<lparr>connected := True\<rparr>) =
   Some (state1\<lparr>connected := False, mem := (mem state1)(43 \<mapsto> Obj_U16 3),
           trace := [Cfw_Msg_Free (MSG_ID_BLE_GAP_TO_EVT
                       \<lparr>evt_conn_handle = 1, evt_timeout_reason = BLE_SVC_GAP_TO_CONN\<rparr>)]\<rparr>)"
  using keeps_session_env1
    timeout_event_clears_connected [where e = env1 and s = "state1\<lparr>connected := True\<rparr>"
      and evt = "\<lparr>evt_conn_handle = 1, evt_timeout_reason = BLE_SVC_GAP_TO_ADV\<rparr>"]
    timeout_event_clears_connected [where e = env1 and s = "state1\<lparr>connected := True\<rparr>"
      and evt = "\<lparr>evt_conn_handle = 1, evt_timeout_reason = BLE_SVC_GAP_TO_CONN\<rparr>"]
  by (simp add: env1_def env0_def state1_def state0_def cfw_msg_free_def)

text \<open>
  Claim C5, as stated, fails: after a connect event the session is connected, and a
  timeout event with the advertising reason then changes the flag to false.
\<close>

theorem advertising_timeout_changes_connected:
  "map_option connected
     (deliver env0 [MSG_ID_BLE_GAP_CONNECT_EVT \<lparr>evt_conn_handle = 1, evt_timeout_reason = BLE_SVC_GAP_TO_OTHER 0\<rparr>]
        state0) = Some True \<and>
   map_option connected
     (deliver env0 [MSG_ID_BLE_GAP_CONNECT_EVT \<lparr>evt_conn_handle = 1, evt_timeout_reason = BLE_SVC_GAP_TO_OTHER 0\<rparr>,
                    MSG_ID_BLE_GAP_TO_EVT \<lparr>evt_conn_handle = 1, evt_timeout_reason = BLE_SVC_GAP_TO_ADV\<rparr>]
        state0) = Some False"
  by (simp add: ble_core_client_handle_message_def handle_msg_id_ble_gap_timeout_evt_msg_def
      handle_msg_id_ble_gap_connect_evt_msg_def cfw_msg_free_def state0_def)

text \<open>
  Claim C6.  A connect event sets Connected to true and the connection handle to the
  handle of the event, and the connection subscriber, when one is registered, is called
  with the connected tag in the state that has both updates; a disconnect event sets
  Connected to false and the subscriber is called with the disconnected tag in that
  state.  With subscriber code that leaves the session variables alone, the state that
  the dispatcher returns after a connect event is connected with the handle of the
  event, and each of the three operations that need a connection (indication,
  notification, disconnect, signal-strength reporting on or off) then passes its check:
  it arms the slot, submits its request with that handle and, when the request is
  accepted, waits.  After a disconnect event the three operations return WrongState.
\<close>

theorem connect_event_sets_session_before_subscriber:
  "ble_core_client_handle_message e (MSG_ID_BLE_GAP_CONNECT_EVT evt) s =
     Some (cfw_msg_free (MSG_ID_BLE_GAP_CONNECT_EVT evt)
       (if ble_client_gap_event_cb s = 0
        then s\<lparr>conn_handle := evt_conn_handle evt, connected := True\<rparr>
        else gap_code e (ble_client_gap_event_cb s) BLE_CLIENT_GAP_EVENT_CONNECTED evt
               (ble_client_gap_event_param s)
               (s\<lparr>conn_handle := evt_conn_handle evt, connected := True\<rparr>))) \<and>
   ble_core_client_handle_message e (MSG_ID_BLE_GAP_DISCONNECT_EVT evt) s =
     Some (cfw_msg_free (MSG_ID_BLE_GAP_DISCONNECT_EVT evt)
       (if ble_client_gap_event_cb s = 0
        then s\<lparr>connected := False\<rparr>
        else gap_code e (ble_client_gap_event_cb s) BLE_CLIENT_GAP_EVENT_DISCONNECTED evt
               (ble_client_gap_event_param s) (s\<lparr>connected := False\<rparr>))) \<and>
   (keeps_session e \<longrightarrow>
      (\<exists>s'. ble_core_client_handle_message e (MSG_ID_BLE_GAP_CONNECT_EVT evt) s = Some s' \<and>
            connected s' \<and> conn_handle s' = evt_conn_handle evt \<and>
            ble_client_gatts_send_notif_ind e value_handle' len p_value offset True sched s' =
              (if substrate e (trace s')
                    (Ble_Gatts_Send_Ind (service_handle s') (evt_conn_handle evt)
                       \<lparr>val_handle = value_handle', ind_len = len, ind_p_data = p_value,
                        ind_offset = offset\<rparr>) \<noteq> 0
               then Some (BLE_STATUS_ERROR, sched,
                      s'\<lparr>sync_response := 0,
                         trace := trace s' @
                           [Request (Ble_Gatts_Send_Ind (service_handle s') (evt_conn_handle evt)
                              \<lparr>val_handle = value_handle', ind_len = len, ind_p_data = p_value,
                               ind_offset = offset\<rparr>)]\<rparr>)
               else wait_and_harvest e sched
                      (s'\<lparr>sync_response := 0,
                         trace := trace s' @
                           [Request (Ble_Gatts_Send_Ind (service_handle s') (evt_conn_handle evt)
                              \<lparr>val_handle = value_handle', ind_len = len, ind_p_data = p_value,
                               ind_offset = offset\<rparr>)]\<rparr>)) \<and>
            ble_client_gatts_send_notif_ind e value_handle' len p_value offset False sched s' =
              (if substrate e (trace s')
                    (Ble_Gatts_Send_Notif (service_handle s') (evt_conn_handle evt)
                       \<lparr>val_handle = value_handle', ind_len = len, ind_p_data = p_value,
                        ind_offset = offset\<rparr>) \<noteq> 0
               then Some (BLE_STATUS_ERROR, sched,
                      s'\<lparr>sync_response := 0,
                         trace := trace s' @
                           [Request (Ble_Gatts_Send_Notif (service_handle s') (evt_conn_handle evt)
                              \<lparr>val_handle = value_handle', ind_len = len, ind_p_data = p_value,
                               ind_offset = offset\<rparr>)]\<rparr>)
               else wait_and_harvest e sched
                      (s'\<lparr>sync_response := 0,
                         trace := trace s' @
                           [Request (Ble_Gatts_Send_Notif (service_handle s') (evt_conn_handle evt)
                              \<lparr>val_handle = value_handle', ind_len = len, ind_p_data = p_value,
                               ind_offset = offset\<rparr>)]\<rparr>)) \<and>
            ble_client_gap_disconnect e reason sched s' =
              (if substrate e (trace s')
                    (Ble_Gap_Disconnect (service_handle s') (evt_conn_handle evt) reason) \<noteq> 0
               then Some (BLE_STATUS_ERROR, sched,
                      s'\<lparr>sync_response := 0,
                         trace := trace s' @ [Request (Ble_Gap_Disconnect (service_handle s')
                                                        (evt_conn_handle evt) reason)]\<rparr>)
               else wait_and_harvest e sched
                      (s'\<lparr>sync_response := 0,
                         trace := trace s' @ [Request (Ble_Gap_Disconnect (service_handle s')
                                                        (evt_conn_handle evt) reason)]\<rparr>)) \<and>
            ble_client_gap_set_rssi_report e enable sched s' =
              (if substrate e (trace s')
                    (Ble_Gap_Set_Rssi_Report (service_handle s') (evt_conn_handle evt)
                       (if enable then BLE_GAP_RSSI_ENABLE_REPORT else BLE_GAP_RSSI_DISABLE_REPORT)) \<noteq> 0
               then Some (BLE_STATUS_ERROR, sched,
                      s'\<lparr>sync_response := 0,
                         trace := trace s' @
                           [Request (Ble_Gap_Set_Rssi_Report (service_handle s') (evt_conn_handle evt)
                              (if enable then BLE_GAP_RSSI_ENABLE_REPORT
                               else BLE_GAP_RSSI_DISABLE_REPORT))]\<rparr>)
               else wait_and_harvest e sched
                      (s'\<lparr>sync_response := 0,
                         trace := trace s' @
                           [Request (Ble_Gap_Set_Rssi_Report (service_handle s') (evt_conn_handle evt)
                              (if enable then BLE_GAP_RSSI_ENABLE_REPORT
                               else BLE_GAP_RSSI_DISABLE_REPORT))]\<rparr>))) \<and>
      (\<exists>s'. ble_core_client_handle_message e (MSG_ID_BLE_GAP_DISCONNECT_EVT evt) s = Some s' \<and>
            \<not> connected s' \<and>
            ble_client_gatts_send_notif_ind e value_handle' len p_value offset indication sched s' =
              Some (BLE_STATUS_WRONG_STATE, sched, s') \<and>
            ble_client_gap_disconnect e reason sched s' = Some (BLE_STATUS_WRONG_STATE, sched, s') \<and>
            ble_client_gap_set_rssi_report e enable sched s' = Some (BLE_STATUS_WRONG_STATE, sched, s')))"
  by (simp add: ble_core_client_handle_message_def handle_msg_id_ble_gap_connect_evt_msg_def
      handle_msg_id_ble_gap_disconnect_evt_msg_def call_gap_event_cb_def cfw_msg_free_def
      keeps_session_def ble_client_gap_disconnect_def ble_client_gatts_send_notif_ind_def
      ble_client_gap_set_rssi_report_def submit_def Let_def)

theorem connect_event_sets_session_before_subscriber_witness:
  "keeps_session env1 \<and>
   ble_core_client_handle_message env1
     (MSG_ID_BLE_GAP_CONNECT_EVT \<lparr>evt_conn_handle = 9, evt_timeout_reason = BLE_SVC_GAP_TO_OTHER 0\<rparr>)
     state1 = Some state3 \<and>
   ble_client_gatts_send_notif_ind env1 3 2 200 0 True
     [([MSG_ID_BLE_GATTS_SEND_IND_RSP BLE_STATUS_SUCCESS], 5)] state3 =
   Some (BLE_STATUS_SUCCESS, [],
     state3\<lparr>sync_response := 1,
       trace := trace state3 @
         [Request (Ble_Gatts_Send_Ind 5 9
            \<lparr>val_handle = 3, ind_len = 2, ind_p_data = 200, ind_offset = 0\<rparr>),
          Cfw_Msg_Free (MSG_ID_BLE_GATTS_SEND_IND_RSP BLE_STATUS_SUCCESS)]\<rparr>) \<and>
   ble_client_gatts_send_notif_ind env1 3 2 200 0 False
     [([MSG_ID_BLE_GATTS_SEND_NOTIF_RSP BLE_STATUS_SUCCESS], 5)] state3 =
   Some (BLE_STATUS_SUCCESS, [],
     state3\<lparr>sync_response := 1,
       trace := trace state3 @
         [Request (Ble_Gatts_Send_Notif 5 9
            \<lparr>val_handle = 3, ind_len = 2, ind_p_data = 200, ind_offset = 0\<rparr>),
          Cfw_Msg_Free (MSG_ID_BLE_GATTS_SEND_NOTIF_RSP BLE_STATUS_SUCCESS)]\<rparr>) \<and>
   ble_client_gap_disconnect env1 19 [([MSG_ID_BLE_GAP_DISCONNECT_RSP BLE_STATUS_SUCCESS], 5)] state3 =
   Some (BLE_STATUS_SUCCESS, [],
     state3\<lparr>sync_response := 1,
       trace := trace state3 @
         [Request (Ble_Gap_Disconnect 5 9 19),
          Cfw_Msg_Free (MSG_ID_BLE_GAP_DISCONNECT_RSP BLE_STATUS_SUCCESS)]\<rparr>) \<and>
   ble_client_gap_set_rssi_report env1 True
     [([MSG_ID_BLE_GAP_SET_RSSI_REPORT_RSP BLE_STATUS_SUCCESS], 5)] state3 =
   Some (BLE_STATUS_SUCCESS, [],
     state3\<lparr>sync_response := 1,
       trace := trace state3 @
         [Request (Ble_Gap_Set_Rssi_Report 5 9 BLE_GAP_RSSI_ENABLE_REPORT),
          Cfw_Msg_Free (MSG_ID_BLE_GAP_SET_RSSI_REPORT_RSP BLE_STATUS_SUCCESS)]\<rparr>) \<and>
   ble_core_client_handle_message env1
     (MSG_ID_BLE_GAP_DISCONNECT_EVT \<lparr>evt_conn_handle = 9, evt_timeout_reason = BLE_SVC_GAP_TO_OTHER 0\<rparr>)
     state3 =
   Some (state3\<lparr>connected := False, mem := (mem state1)(43 \<mapsto> Obj_U16 1),
           trace := trace state3 @
             [Request (Ble_Gap_Start_Advertise 5
                \<lparr>adv_timeout = 180, adv_interval_min = 32, adv_interval_max = 32,
                 adv_type = 0, adv_filter_policy = 0, adv_p_peer_bda = 0\<rparr>),
              Cfw_Msg_Free (MSG_ID_BLE_GAP_DISCONNECT_EVT
                \<lparr>evt_conn_handle = 9, evt_timeout_reason = BLE_SVC_GAP_TO_OTHER 0\<rparr>)]\<rparr>) \<and>
   (\<exists>s'. ble_core_client_handle_message env1
           (MSG_ID_BLE_GAP_DISCONNECT_EVT \<lparr>evt_conn_handle = 9, evt_timeout_reason = BLE_SVC_GAP_TO_OTHER 0\<rparr>)
           state3 = Some s' \<and>
         ble_client_gatts_send_notif_ind env1 3 2 200 0 True [([], 5)] s' =
           Some (BLE_STATUS_WRONG_STATE, [([], 5)], s') \<and>
         ble_client_gap_disconnect env1 19 [([], 5)] s' = Some (BLE_STATUS_WRONG_STATE, [([], 5)], s') \<and>
         ble_client_gap_set_rssi_report env1 True [([], 5)] s' =
           Some (BLE_STATUS_WRONG_STATE, [([], 5)], s'))"
  (is "?k \<and> ?c \<and> ?i \<and> ?n \<and> ?d \<and> ?r \<and> ?dc \<and> ?w")
proof -
  let ?ev = "\<lparr>evt_conn_handle = 9, evt_timeout_reason = BLE_SVC_GAP_TO_OTHER 0\<rparr>"
  note k = keeps_session_env1
  note c = connect_event_sets_session_before_subscriber [where e = env1 and s = state1 and evt = ?ev]
  have c1: ?c
    using c [THEN conjunct1]
    by (simp add: env1_def env0_def state1_def state0_def state3_def cfw_msg_free_def)
  have sub: "substrate env1 tr rq = 0" for tr rq
    by (simp add: env1_def env0_def)
  have h: "service_handle state3 = 5" "trace state3 = trace state3" "sync_response state3 = 0"
    by (simp_all add: state3_def state1_def state0_def)
  have ops:
    "ble_client_gatts_send_notif_ind env1 3 2 200 0 True sched state3 =
       wait_and_harvest env1 sched
         (state3\<lparr>sync_response := 0,
            trace := trace state3 @
              [Request (Ble_Gatts_Send_Ind 5 9
                 \<lparr>val_handle = 3, ind_len = 2, ind_p_data = 200, ind_offset = 0\<rparr>)]\<rparr>)"
    "ble_client_gatts_send_notif_ind env1 3 2 200 0 False sched state3 =
       wait_and_harvest env1 sched
         (state3\<lparr>sync_response := 0,
            trace := trace state3 @
              [Request (Ble_Gatts_Send_Notif 5 9
                 \<lparr>val_handle = 3, ind_len = 2, ind_p_data = 200, ind_offset = 0\<rparr>)]\<rparr>)"
    "ble_client_gap_disconnect env1 19 sched state3 =
       wait_and_harvest env1 sched
         (state3\<lparr>sync_response := 0, trace := trace state3 @ [Request (Ble_Gap_Disconnect 5 9 19)]\<rparr>)"
    "ble_client_gap_set_rssi_report env1 True sched state3 =
       wait_and_harvest env1 sched
         (state3\<lparr>sync_response := 0,
            trace := trace state3 @
              [Request (Ble_Gap_Set_Rssi_Report 5 9 BLE_GAP_RSSI_ENABLE_REPORT)]\<rparr>)"
    for sched
    using connect_event_sets_session_before_subscriber [where e = env1 and s = state1 and evt = ?ev
        and value_handle' = 3 and len = 2 and p_value = 200 and offset = 0 and sched = sched
        and reason = 19 and enable = True, THEN conjunct2, THEN conjunct2] k c1
    by (simp_all add: sub h(1))
  have st: "sync_status state3 = BLE_STATUS_SUCCESS"
    by (simp add: state3_def state1_def state0_def)
  have ss: "state3\<lparr>sync_status := BLE_STATUS_SUCCESS\<rparr> = state3"
    by (simp add: state3_def state1_def state0_def)
  have i: ?i and n: ?n and d: ?d and r: ?r
    by (simp_all add: ops wait_and_harvest_def wait_for_condition_def
        ble_core_client_handle_message_def handle_msg_id_ble_gatts_send_notif_ind_rsp_def
        handle_msg_id_ble_gap_disconnect_rsp_def handle_msg_id_ble_gap_set_rssi_report_rsp_def
        cfw_msg_free_def ss st)
  note dd = connect_event_sets_session_before_subscriber [where e = env1 and s = state3 and evt = ?ev
      and value_handle' = 3 and len = 2 and p_value = 200 and offset = 0 and indication = True
      and sched = "[([], 5)]" and reason = 19 and enable = True]
  have dc: ?dc
    using dd [THEN conjunct2, THEN conjunct1]
    by (simp add: env1_def env0_def state1_def state0_def state3_def cfw_msg_free_def
        ble_client_gap_start_advertise_def submit_def APP_ULTRA_FAST_ADV_INTERVAL_def
        BLE_GAP_ADV_TYPE_ADV_IND_def BLE_GAP_ADV_FP_ANY_def Let_def)
  have w: ?w
    using dd [THEN conjunct2, THEN conjunct2] k by blast
  from k c1 i n d r dc w show ?thesis by blast
qed

text \<open>
  Claim C9.  For every message the switch of the dispatcher returns, and the release
  of the message is the last thing the dispatcher does.  A message of an unlisted kind
  has no other effect.  When the subscriber code releases nothing itself, the message is
  released exactly once and no other message is released.
\<close>

theorem dispatcher_releases_every_message_once:
  "(\<exists>s1. message_switch e m s = Some s1 \<and>
         ble_core_client_handle_message e m s = Some (s1\<lparr>trace := trace s1 @ [Cfw_Msg_Free m]\<rparr>)) \<and>
   ble_core_client_handle_message e (MSG_ID_OTHER k) s =
     Some (s\<lparr>trace := trace s @ [Cfw_Msg_Free (MSG_ID_OTHER k)]\<rparr>) \<and>
   (subscribers_release_nothing e \<longrightarrow>
      (\<exists>s'. ble_core_client_handle_message e m s = Some s' \<and>
            releases m (trace s') = releases m (trace s) + 1 \<and>
            (\<forall>m'. m' \<noteq> m \<longrightarrow> releases m' (trace s') = releases m' (trace s))))"
proof -
  obtain s1 where s1: "message_switch e m s = Some s1"
    using message_switch_returns by blast
  then have h: "ble_core_client_handle_message e m s = Some (s1\<lparr>trace := trace s1 @ [Cfw_Msg_Free m]\<rparr>)"
    by (simp add: ble_core_client_handle_message_def cfw_msg_free_def)
  have o: "ble_core_client_handle_message e (MSG_ID_OTHER k) s =
             Some (s\<lparr>trace := trace s @ [Cfw_Msg_Free (MSG_ID_OTHER k)]\<rparr>)"
    by (simp add: ble_core_client_handle_message_def cfw_msg_free_def)
  have c: "releases m (trace (s1\<lparr>trace := trace s1 @ [Cfw_Msg_Free m]\<rparr>)) = releases m (trace s) + 1 \<and>
           (\<forall>m'. m' \<noteq> m \<longrightarrow>
              releases m' (trace (s1\<lparr>trace := trace s1 @ [Cfw_Msg_Free m]\<rparr>)) = releases m' (trace s))"
    if "subscribers_release_nothing e"
    using message_switch_releases [OF that s1]
    by (simp add: releases_def)
  from s1 h o c show ?thesis by simp
qed

theorem dispatcher_releases_every_message_once_witness:
  "subscribers_release_nothing env0 \<and>
   ble_core_client_handle_message env0 (MSG_ID_OTHER 4660) state1 =
     Some (state1\<lparr>trace := [Cfw_Msg_Free (MSG_ID_OTHER 4660)]\<rparr>) \<and>
   releases (MSG_ID_OTHER 4660) (trace state1) = 0 \<and>
   (\<exists>s'. ble_core_client_handle_message env0 (MSG_ID_OTHER 4660) state1 = Some s' \<and>
         releases (MSG_ID_OTHER 4660) (trace s') = 1)"
proof -
  have n: "subscribers_release_nothing env0"
    by (simp add: subscribers_release_nothing_def env0_def)
  have z: "releases (MSG_ID_OTHER 4660) (trace state1) = 0"
    by (simp add: releases_def state1_def state0_def)
  show ?thesis
    using n z dispatcher_releases_every_message_once
      [where e = env0 and s = state1 and m = "MSG_ID_OTHER 4660" and k = 4660]
    by (auto simp: state1_def state0_def)
qed

text \<open>
  Claim C10.  The dispatcher never passes control through a null function pointer:
  it returns for every message in every state.  With no connection subscriber stored,
  a connect, disconnect, timeout or signal-strength event does its session update and
  releases the message, and nothing else; with no attribute subscriber stored, so does a
  write event.  With a subscriber stored, the signal-strength and the write event call
  the subscriber of their own category.
\<close>

theorem subscriber_called_only_when_registered:
  "(\<exists>s'. ble_core_client_handle_message e m s = Some s') \<and>
   (ble_client_gap_event_cb s = 0 \<longrightarrow>
      ble_core_client_handle_message e (MSG_ID_BLE_GAP_CONNECT_EVT evt) s =
        Some (s\<lparr>conn_handle := evt_conn_handle evt, connected := True,
                trace := trace s @ [Cfw_Msg_Free (MSG_ID_BLE_GAP_CONNECT_EVT evt)]\<rparr>) \<and>
      ble_core_client_handle_message e (MSG_ID_BLE_GAP_DISCONNECT_EVT evt) s =
        Some (s\<lparr>connected := False,
                trace := trace s @ [Cfw_Msg_Free (MSG_ID_BLE_GAP_DISCONNECT_EVT evt)]\<rparr>) \<and>
      ble_core_client_handle_message e (MSG_ID_BLE_GAP_TO_EVT evt) s =
        Some (s\<lparr>connected := False,
                trace := trace s @ [Cfw_Msg_Free (MSG_ID_BLE_GAP_TO_EVT evt)]\<rparr>) \<and>
      ble_core_client_handle_message e (MSG_ID_BLE_GAP_RSSI_EVT evt) s =
        Some (s\<lparr>trace := trace s @ [Cfw_Msg_Free (MSG_ID_BLE_GAP_RSSI_EVT evt)]\<rparr>)) \<and>
   (ble_client_gatts_event_cb s = 0 \<longrightarrow>
      ble_core_client_handle_message e (MSG_ID_BLE_GATTS_WRITE_EVT wr) s =
        Some (s\<lparr>trace := trace s @ [Cfw_Msg_Free (MSG_ID_BLE_GATTS_WRITE_EVT wr)]\<rparr>)) \<and>
   (ble_client_gap_event_cb s \<noteq> 0 \<longrightarrow>
      ble_core_client_handle_message e (MSG_ID_BLE_GAP_RSSI_EVT evt) s =
        Some (cfw_msg_free (MSG_ID_BLE_GAP_RSSI_EVT evt)
          (gap_code e (ble_client_gap_event_cb s) BLE_CLIENT_GAP_EVENT_RSSI evt
             (ble_client_gap_event_param s) s))) \<and>
   (ble_client_gatts_event_cb s \<noteq> 0 \<longrightarrow>
      ble_core_client_handle_message e (MSG_ID_BLE_GATTS_WRITE_EVT wr) s =
        Some (cfw_msg_free (MSG_ID_BLE_GATTS_WRITE_EVT wr)
          (gatts_code e (ble_client_gatts_event_cb s) BLE_CLIENT_GATTS_EVENT_WRITE wr
             (ble_client_gatts_event_param s) s)))"
proof -
  obtain s1 where "message_switch e m s = Some s1"
    using message_switch_returns by blast
  then have "\<exists>s'. ble_core_client_handle_message e m s = Some s'"
    by (simp add: ble_core_client_handle_message_def)
  then show ?thesis
    by (simp add: ble_core_client_handle_message_def handle_msg_id_ble_gap_connect_evt_msg_def
        handle_msg_id_ble_gap_disconnect_evt_msg_def handle_msg_id_ble_gap_timeout_evt_msg_def
        handle_msg_id_ble_gap_rssi_evt_msg_def handle_msg_id_ble_gatts_write_evt_msg_def
        call_gap_event_cb_def call_gatts_event_cb_def cfw_msg_free_def Let_def)
qed

theorem subscriber_called_only_when_registered_witness:
  "ble_client_gap_event_cb state0 = 0 \<and> ble_client_gatts_event_cb state0 = 0 \<and>
   ble_core_client_handle_message env1
     (MSG_ID_BLE_GAP_CONNECT_EVT \<lparr>evt_conn_handle = 9, evt_timeout_reason = BLE_SVC_GAP_TO_OTHER 0\<rparr>)
     state0 =
   Some (state0\<lparr>conn_handle := 9, connected := True,
           trace := [Cfw_Msg_Free (MSG_ID_BLE_GAP_CONNECT_EVT
                       \<lparr>evt_conn_handle = 9, evt_timeout_reason = BLE_SVC_GAP_TO_OTHER 0\<rparr>)]\<rparr>) \<and>
   ble_core_client_handle_message env1 (MSG_ID_BLE_GATTS_WRITE_EVT [1, 2]) state0 =
   Some (state0\<lparr>trace := [Cfw_Msg_Free (MSG_ID_BLE_GATTS_WRITE_EVT [1, 2])]\<rparr>) \<and>
   ble_client_init env0 0 0 0 0
     [([MSG_ID_CFW_SVC_AVAIL_EVT 7], 100), ([], 101), ([], 140), ([MSG_ID_CFW_OPEN_SERVICE 5], 150)]
     state0 = Some (BLE_STATUS_SUCCESS, [], state2) \<and>
   ble_client_gap_event_cb state2 = 0 \<and>
   ble_core_client_handle_message env1
     (MSG_ID_BLE_GAP_TO_EVT \<lparr>evt_conn_handle = 9, evt_timeout_reason = BLE_SVC_GAP_TO_CONN\<rparr>)
     (state2\<lparr>connected := True\<rparr>) =
   Some (state2\<lparr>connected := False,
           trace := trace state2 @
             [Cfw_Msg_Free (MSG_ID_BLE_GAP_TO_EVT
                \<lparr>evt_conn_handle = 9, evt_timeout_reason = BLE_SVC_GAP_TO_CONN\<rparr>)]\<rparr>)"
proof -
  have z: "ble_client_gap_event_cb (state2\<lparr>connected := True\<rparr>) = 0"
    by (simp add: state2_def state0_def)
  show ?thesis
    using init_example z
      subscriber_called_only_when_registered [where e = env1 and s = state0 and wr = "[1, 2]"
        and evt = "\<lparr>evt_conn_handle = 9, evt_timeout_reason = BLE_SVC_GAP_TO_OTHER 0\<rparr>"]
      subscriber_called_only_when_registered [where e = env1 and s = "state2\<lparr>connected := True\<rparr>"
        and evt = "\<lparr>evt_conn_handle = 9, evt_timeout_reason = BLE_SVC_GAP_TO_CONN\<rparr>"]
    by (simp add: state0_def)
qed

end
